theory Spec2Isabelle
  imports Complex_Main "HOL-Library.Log_Nat"
begin

section \<open>Congressional trading bot: the model of server.js\<close>

text \<open>
  The development embeds the decision logic of \<^verbatim>\<open>server.js\<close>: the portfolio refresh
  (\<^verbatim>\<open>updatePortfolioValues\<close>), the two trade adapters, the recommendation engine
  (\<^verbatim>\<open>calculatePositionAdjustment\<close>), the dispatcher (\<^verbatim>\<open>sendBuyRecommendation\<close>) and the
  ingestion loop (\<^verbatim>\<open>processNewTrades\<close>).

  The repository holds the file twice; the second copy sends no text messages and is
  otherwise the same in every function modelled here. The model follows the copy with
  both channels, and the line numbers are its.

  Conventions of the model.
  \<^item> A JavaScript number is an IEEE 754 double: a finite value (kept as the rational it
    denotes), one of the two zeros, an infinity or NaN. Every arithmetic operation
    gives the exact result rounded to the nearest double, ties to even, as the language
    prescribes; a decimal literal of the source is the double nearest to it.
  \<^item> A JavaScript object used as a table is an association list in insertion order; a
    lookup \<^verbatim>\<open>obj[key]\<close> also finds the properties every object inherits from
    \<^verbatim>\<open>Object.prototype\<close>, which are truthy and have none of the table's fields.
  \<^item> The SQLite tables are lists of rows in insertion order; a statement takes effect
    when it is issued. The amount of a trade record is a finite number, compared as the
    database compares it.
  \<^item> Network calls are parameters: the quote service is a function from a symbol to an
    optional price, the disclosure feed is an optional list of raw records.
  \<^item> Timestamps (\<^verbatim>\<open>lastUpdated\<close>, \<^verbatim>\<open>created_at\<close>) and console output are left out.
\<close>

subsection \<open>Numbers\<close>

text \<open>
  \<open>Fin x\<close> is the double of value \<open>x\<close>, with \<open>Fin 0\<close> the positive zero. For a positive
  rational \<open>x\<close>, \<open>exponent x\<close> is the integer \<open>e\<close> with \<open>2 powi e \<le> x < 2 powi (e + 1)\<close>. A
  double has 53 significant bits and exponents from -1022 (below that the spacing stays
  that of the smallest normal numbers) to 1023, so the doubles around \<open>x\<close> are the
  multiples of \<open>ulp x\<close>. \<open>fl x\<close> is the double that the exact result \<open>x\<close> of an operation
  is rounded to.
\<close>

datatype jsnum = Fin rat | NegZero | PosInf | NegInf | NaN

definition exponent :: "rat \<Rightarrow> int" where
  "exponent x = (if 1 \<le> x then bitlen \<lfloor>x\<rfloor> - 1 else - bitlen (\<lceil>1 / x\<rceil> - 1))"

definition round_half_even :: "rat \<Rightarrow> int" where
  \<comment> \<open>the nearest integer, the even one of two that are equally near\<close>
  "round_half_even q =
     (let f = \<lfloor>q\<rfloor>; d = q - of_int f
      in if d < 1 / 2 then f else if 1 / 2 < d then f + 1 else if even f then f else f + 1)"

definition ulp :: "rat \<Rightarrow> rat" where
  "ulp x = 2 powi (max (exponent \<bar>x\<bar>) (- 1022) - 52)"

definition fl :: "rat \<Rightarrow> jsnum" where
  \<comment> \<open>a magnitude that rounds to \<open>2 powi 1024\<close> or more overflows; a result that rounds to
      zero keeps its sign\<close>
  "fl x =
     (if x = 0 then Fin 0
      else
        let m = round_half_even (\<bar>x\<bar> / ulp x);
            r = of_int m * ulp x
        in if 2 powi 1024 \<le> r then (if x < 0 then NegInf else PosInf)
           else if m = 0 then (if x < 0 then NegZero else Fin 0)
           else Fin (if x < 0 then - r else r))"

fun is_zero :: "jsnum \<Rightarrow> bool" where
  "is_zero (Fin x) = (x = 0)"
| "is_zero NegZero = True"
| "is_zero PosInf = False"
| "is_zero NegInf = False"
| "is_zero NaN = False"

fun is_inf :: "jsnum \<Rightarrow> bool" where
  "is_inf PosInf = True"
| "is_inf NegInf = True"
| "is_inf (Fin x) = False"
| "is_inf NegZero = False"
| "is_inf NaN = False"

fun is_neg :: "jsnum \<Rightarrow> bool" where
  "is_neg (Fin x) = (x < 0)"
| "is_neg NegZero = True"
| "is_neg NegInf = True"
| "is_neg PosInf = False"
| "is_neg NaN = False"

fun val :: "jsnum \<Rightarrow> rat" where
  "val (Fin x) = x"
| "val NegZero = 0"
| "val PosInf = 0"
| "val NegInf = 0"
| "val NaN = 0"

definition signed_zero :: "bool \<Rightarrow> jsnum" where
  "signed_zero neg = (if neg then NegZero else Fin 0)"

definition signed_inf :: "bool \<Rightarrow> jsnum" where
  "signed_inf neg = (if neg then NegInf else PosInf)"

text \<open>
  The operations \<^verbatim>\<open>-x\<close>, \<^verbatim>\<open>+\<close>, \<^verbatim>\<open>-\<close>, \<^verbatim>\<open>*\<close> and \<^verbatim>\<open>/\<close>. A sum of two zeros is the negative zero
  only when both are, and a sum of two finite numbers that is zero is the positive zero.
  The difference of equal infinities, zero times infinity, zero by zero and infinity by
  infinity are NaN; a number that is not zero divided by zero is an infinity of the
  sign of the operands.
\<close>

fun jneg :: "jsnum \<Rightarrow> jsnum" where
  "jneg (Fin x) = (if x = 0 then NegZero else Fin (- x))"
| "jneg NegZero = Fin 0"
| "jneg PosInf = NegInf"
| "jneg NegInf = PosInf"
| "jneg NaN = NaN"

fun jadd :: "jsnum \<Rightarrow> jsnum \<Rightarrow> jsnum" where
  "jadd NaN b = NaN"
| "jadd a NaN = NaN"
| "jadd PosInf NegInf = NaN"
| "jadd NegInf PosInf = NaN"
| "jadd PosInf b = PosInf"
| "jadd a PosInf = PosInf"
| "jadd NegInf b = NegInf"
| "jadd a NegInf = NegInf"
| "jadd NegZero NegZero = NegZero"
| "jadd NegZero (Fin y) = Fin y"
| "jadd (Fin x) NegZero = Fin x"
| "jadd (Fin x) (Fin y) = fl (x + y)"

definition jsub :: "jsnum \<Rightarrow> jsnum \<Rightarrow> jsnum" where
  "jsub a b = jadd a (jneg b)"

definition jmul :: "jsnum \<Rightarrow> jsnum \<Rightarrow> jsnum" where
  "jmul a b =
     (if a = NaN \<or> b = NaN then NaN
      else if (is_zero a \<and> is_inf b) \<or> (is_inf a \<and> is_zero b) then NaN
      else if is_inf a \<or> is_inf b then signed_inf (is_neg a \<noteq> is_neg b)
      else if is_zero a \<or> is_zero b then signed_zero (is_neg a \<noteq> is_neg b)
      else fl (val a * val b))"

definition jdiv :: "jsnum \<Rightarrow> jsnum \<Rightarrow> jsnum" where
  "jdiv a b =
     (if a = NaN \<or> b = NaN then NaN
      else if (is_zero a \<and> is_zero b) \<or> (is_inf a \<and> is_inf b) then NaN
      else if is_inf a \<or> is_zero b then signed_inf (is_neg a \<noteq> is_neg b)
      else if is_zero a \<or> is_inf b then signed_zero (is_neg a \<noteq> is_neg b)
      else fl (val a / val b))"

text \<open>
  The comparisons \<^verbatim>\<open><\<close>, \<^verbatim>\<open>>\<close>, \<^verbatim>\<open><=\<close> and \<^verbatim>\<open>==\<close>: every comparison with NaN is false, and the
  two zeros are equal.
\<close>

fun jless :: "jsnum \<Rightarrow> jsnum \<Rightarrow> bool" where
  "jless NaN b = False"
| "jless a NaN = False"
| "jless PosInf b = False"
| "jless a PosInf = True"
| "jless a NegInf = False"
| "jless NegInf b = True"
| "jless a b = (val a < val b)"

definition jgt :: "jsnum \<Rightarrow> jsnum \<Rightarrow> bool" where
  "jgt a b = jless b a"

definition jle :: "jsnum \<Rightarrow> jsnum \<Rightarrow> bool" where
  "jle a b = (a \<noteq> NaN \<and> b \<noteq> NaN \<and> \<not> jless b a)"

definition jeq :: "jsnum \<Rightarrow> jsnum \<Rightarrow> bool" where
  "jeq a b = (a \<noteq> NaN \<and> b \<noteq> NaN \<and> \<not> jless a b \<and> \<not> jless b a)"

text \<open>
  \<^verbatim>\<open>Math.min\<close> and \<^verbatim>\<open>Math.max\<close> of two numbers: NaN when one of them is, and the negative
  zero is the smaller zero.
\<close>

definition jmin :: "jsnum \<Rightarrow> jsnum \<Rightarrow> jsnum" where
  "jmin a b =
     (if a = NaN \<or> b = NaN then NaN
      else if jless a b then a
      else if jless b a then b
      else if is_neg a then a else b)"

definition jmax :: "jsnum \<Rightarrow> jsnum \<Rightarrow> jsnum" where
  "jmax a b =
     (if a = NaN \<or> b = NaN then NaN
      else if jless a b then b
      else if jless b a then a
      else if is_neg a then b else a)"

text \<open>\<^verbatim>\<open>a || b\<close> on numbers: NaN and the zeros are falsy.\<close>

definition falsy :: "jsnum \<Rightarrow> bool" where
  "falsy a = (a = NaN \<or> is_zero a)"

definition js_or :: "jsnum \<Rightarrow> jsnum \<Rightarrow> jsnum" where
  "js_or a b = (if falsy a then b else a)"

text \<open>
  The finite doubles: a rational is the value of a double when rounding leaves it as
  it is.
\<close>

fun finite_double :: "jsnum \<Rightarrow> bool" where
  "finite_double (Fin x) = (fl x = Fin x)"
| "finite_double NegZero = True"
| "finite_double PosInf = False"
| "finite_double NegInf = False"
| "finite_double NaN = False"

text \<open>A decimal literal of the source denotes the double nearest to it.\<close>

definition lit :: "rat \<Rightarrow> jsnum" where
  "lit x = fl x"

text \<open>The magnitude a non-zero number rounds to, before the range check.\<close>

definition rounded :: "rat \<Rightarrow> rat" where
  "rounded x = of_int (round_half_even (\<bar>x\<bar> / ulp x)) * ulp x"

subsection \<open>Property lookup on plain objects\<close>

definition object_prototype_keys :: "string list" where
  "object_prototype_keys =
     [''constructor'', ''__defineGetter__'', ''__defineSetter__'', ''hasOwnProperty'',
      ''__lookupGetter__'', ''__lookupSetter__'', ''isPrototypeOf'',
      ''propertyIsEnumerable'', ''toString'', ''valueOf'', ''__proto__'',
      ''toLocaleString'']"

datatype 'a js_prop = Own 'a | Inherited | Undefined

definition js_get :: "(string \<times> 'a) list \<Rightarrow> string \<Rightarrow> 'a js_prop" where
  "js_get obj k =
     (case map_of obj k of
        Some v \<Rightarrow> Own v
      | None \<Rightarrow> if k \<in> set object_prototype_keys then Inherited else Undefined)"

fun truthy :: "'a js_prop \<Rightarrow> bool" where
  "truthy Undefined = False"
| "truthy _ = True"

datatype js_error = TypeError

subsection \<open>Portfolio and tracked actors (lines 31--53)\<close>

record position =
  shares :: jsnum
  targetAllocation :: jsnum
  currentValue :: jsnum
  currentPrice :: jsnum

record portfolio =
  totalValue :: jsnum
  cash :: jsnum
  positions :: "(string \<times> position) list"

record performer =
  weight :: jsnum
  successRate :: jsnum

definition TOP_PERFORMERS :: "(string \<times> performer) list" where
  "TOP_PERFORMERS =
     [(''Nancy Pelosi'', \<lparr>weight = Fin 1, successRate = lit (89 / 100)\<rparr>),
      (''David Rouzer'', \<lparr>weight = lit (95 / 100), successRate = lit (87 / 100)\<rparr>),
      (''Debbie Wasserman Schultz'', \<lparr>weight = lit (85 / 100), successRate = lit (82 / 100)\<rparr>),
      (''Ron Wyden'', \<lparr>weight = lit (80 / 100), successRate = lit (84 / 100)\<rparr>),
      (''Roger Williams'', \<lparr>weight = lit (75 / 100), successRate = lit (79 / 100)\<rparr>),
      (''Josh Gottheimer'', \<lparr>weight = lit (90 / 100), successRate = lit (85 / 100)\<rparr>)]"

text \<open>
  The initial portfolio. \<open>env\<close> is \<^verbatim>\<open>parseFloat(process.env.DEFAULT_PORTFOLIO_VALUE)\<close>,
  which is NaN when the variable is unset.
\<close>

definition userPortfolio_init :: "jsnum \<Rightarrow> portfolio" where
  "userPortfolio_init env =
     \<lparr>totalValue = js_or env (Fin 1000),
      cash = Fin 100,
      positions =
        [(''QQQ'', \<lparr>shares = Fin 0, targetAllocation = lit (25 / 100), currentValue = Fin 250,
                   currentPrice = Fin 0\<rparr>),
         (''NVDA'', \<lparr>shares = Fin 0, targetAllocation = lit (20 / 100), currentValue = Fin 200,
                    currentPrice = Fin 0\<rparr>),
         (''MSFT'', \<lparr>shares = Fin 0, targetAllocation = lit (20 / 100), currentValue = Fin 200,
                    currentPrice = Fin 0\<rparr>),
         (''AAPL'', \<lparr>shares = Fin 0, targetAllocation = lit (15 / 100), currentValue = Fin 150,
                    currentPrice = Fin 0\<rparr>),
         (''GOOGL'', \<lparr>shares = Fin 0, targetAllocation = lit (10 / 100), currentValue = Fin 100,
                     currentPrice = Fin 0\<rparr>)]\<rparr>"

subsection \<open>Recommendation engine (lines 234--281)\<close>

datatype action = HOLD | BUY | SELL

text \<open>
  The rationale is a template string; the model keeps the values the template is filled
  with: the actor, the disclosed amount, the current allocation in percent and the new
  target allocation in percent.
\<close>

datatype reason_text =
    NoReason
  | Bought string jsnum jsnum jsnum
  | Sold string jsnum jsnum jsnum

record recommendation =
  symbol :: string
  action :: action
  rec_currentPrice :: jsnum
  recommendedAmount :: jsnum
  sharesToTrade :: jsnum
  reason :: reason_text
  confidence :: jsnum

definition traderWeight :: "string \<Rightarrow> jsnum" where
  \<comment> \<open>\<^verbatim>\<open>TOP_PERFORMERS[traderName]?.weight || 0.5\<close>\<close>
  "traderWeight traderName =
     (case js_get TOP_PERFORMERS traderName of
        Own perf \<Rightarrow> js_or (weight perf) (lit (5 / 10))
      | Inherited \<Rightarrow> lit (5 / 10)
      | Undefined \<Rightarrow> lit (5 / 10))"

definition tradeImpact :: "jsnum \<Rightarrow> jsnum \<Rightarrow> jsnum" where
  "tradeImpact amount w = jmin (jmul (jdiv amount (Fin 1000000)) w) (lit (15 / 100))"

definition newTargetPurchase :: "jsnum \<Rightarrow> jsnum \<Rightarrow> jsnum" where
  "newTargetPurchase target impact = jmin (jadd target impact) (lit (35 / 100))"

definition newTargetSale :: "jsnum \<Rightarrow> jsnum \<Rightarrow> jsnum" where
  "newTargetSale target impact = jmax (jsub target impact) (lit (5 / 100))"

definition percentOf :: "jsnum \<Rightarrow> jsnum \<Rightarrow> jsnum" where
  "percentOf v whole = jmul (jdiv v whole) (Fin 100)"

definition priceOr100 :: "jsnum \<Rightarrow> jsnum" where
  \<comment> \<open>\<^verbatim>\<open>position.currentPrice || 100\<close>\<close>
  "priceOr100 p = js_or p (Fin 100)"

definition holdRecommendation :: "string \<Rightarrow> jsnum \<Rightarrow> recommendation" where
  "holdRecommendation tkr price =
     \<lparr>symbol = tkr, action = HOLD, rec_currentPrice = price, recommendedAmount = Fin 0,
      sharesToTrade = Fin 0, reason = NoReason, confidence = Fin 0\<rparr>"

text \<open>
  A symbol that is no key of the portfolio makes \<^verbatim>\<open>position\<close> undefined, and reading
  \<^verbatim>\<open>position.currentValue\<close> throws. A symbol that names an inherited property gives an
  object without the position's fields: every amount computed from it is NaN, both
  comparisons with 10 are false, and the initial HOLD record is returned, with the
  price \<^verbatim>\<open>undefined || 0\<close>.
\<close>

definition calculatePositionAdjustment ::
  "portfolio \<Rightarrow> string \<Rightarrow> string \<Rightarrow> string \<Rightarrow> jsnum \<Rightarrow> js_error + recommendation" where
  "calculatePositionAdjustment pf tkr traderAction traderName amount =
     (case js_get (positions pf) tkr of
        Undefined \<Rightarrow> Inl TypeError
      | Inherited \<Rightarrow> Inr (holdRecommendation tkr (Fin 0))
      | Own pos \<Rightarrow>
          let w = traderWeight traderName;
              currentAllocation = jdiv (currentValue pos) (totalValue pf);
              target = targetAllocation pos;
              recommendation = holdRecommendation tkr (js_or (currentPrice pos) (Fin 0));
              impact = tradeImpact amount w
          in if traderAction = ''Purchase'' \<or> traderAction = ''Buy'' then
               let newTargetAllocation = newTargetPurchase target impact;
                   targetValue = jmul newTargetAllocation (totalValue pf);
                   additionalAmount = jsub targetValue (currentValue pos)
               in if jgt additionalAmount (Fin 10) then
                    Inr (recommendation
                          \<lparr>action := BUY,
                           recommendedAmount := additionalAmount,
                           sharesToTrade := jdiv additionalAmount (priceOr100 (currentPrice pos)),
                           reason := Bought traderName amount
                                       (jmul currentAllocation (Fin 100))
                                       (jmul newTargetAllocation (Fin 100)),
                           confidence := jmul w (lit (9 / 10))\<rparr>)
                  else Inr recommendation
             else if traderAction = ''Sale'' \<or> traderAction = ''Sell'' then
               let newTargetAllocation = newTargetSale target impact;
                   targetValue = jmul newTargetAllocation (totalValue pf);
                   reductionAmount = jsub (currentValue pos) targetValue
               in if jgt reductionAmount (Fin 10) then
                    Inr (recommendation
                          \<lparr>action := SELL,
                           recommendedAmount := reductionAmount,
                           sharesToTrade := jdiv reductionAmount (priceOr100 (currentPrice pos)),
                           reason := Sold traderName amount
                                       (jmul currentAllocation (Fin 100))
                                       (jmul newTargetAllocation (Fin 100)),
                           confidence := jmul w (lit (8 / 10))\<rparr>)
                  else Inr recommendation
             else Inr recommendation)"

subsection \<open>Price refresh (lines 119--146)\<close>

text \<open>
  \<^verbatim>\<open>getStockPrice\<close> returns an object with the parsed price, or \<^verbatim>\<open>null\<close> after any
  failure; the model's quote service returns \<open>Some price\<close> or \<open>None\<close>. The price is
  whatever \<^verbatim>\<open>parseFloat\<close> makes of the quoted string: the check of line 102 only asks for
  a string that is not empty, so the price can be zero or NaN. The body of the loop, for
  one position and the answer of the quote service:
\<close>

definition refreshPosition :: "position \<Rightarrow> jsnum option \<Rightarrow> position" where
  "refreshPosition pos priceData =
     (case priceData of
        None \<Rightarrow> pos
      | Some price \<Rightarrow>
          let pos1 = pos\<lparr>currentPrice := price\<rparr>;
              pos2 = (if is_zero (shares pos1)
                      then pos1\<lparr>shares := jdiv (currentValue pos1) price\<rparr>
                      else pos1)
          in pos2\<lparr>currentValue := jmul (shares pos2) price\<rparr>)"

fun refreshPositions ::
  "(string \<Rightarrow> jsnum option) \<Rightarrow> (string \<times> position) list \<Rightarrow> (string \<times> position) list" where
  "refreshPositions getStockPrice [] = []"
| "refreshPositions getStockPrice ((tkr, pos) # rest) =
     (tkr, refreshPosition pos (getStockPrice tkr)) # refreshPositions getStockPrice rest"

definition updatePortfolioValues :: "(string \<Rightarrow> jsnum option) \<Rightarrow> portfolio \<Rightarrow> portfolio" where
  "updatePortfolioValues getStockPrice pf =
     (let ps = refreshPositions getStockPrice (positions pf);
          totalPositionValue = foldl (\<lambda>acc (tkr, pos). jadd acc (currentValue pos)) (Fin 0) ps
      in pf\<lparr>positions := ps, totalValue := jadd totalPositionValue (cash pf)\<rparr>)"

text \<open>
  The invariant of the specification, with tolerance \<open>eps\<close>: the distance between the
  total and the cash plus the sum of the positions' values is below \<open>eps\<close>.
\<close>

definition jabs :: "jsnum \<Rightarrow> jsnum" where
  "jabs a = (if is_neg a then jneg a else a)"

definition total_within :: "jsnum \<Rightarrow> portfolio \<Rightarrow> bool" where
  "total_within eps pf =
     jless (jabs (jsub (totalValue pf)
                    (jadd (cash pf)
                       (foldl (\<lambda>acc (tkr, pos). jadd acc (currentValue pos)) (Fin 0)
                          (positions pf)))))
       eps"

subsection \<open>Tables of the database (lines 55--92)\<close>

record trade =
  Representative :: string
  Ticker :: string
  Transaction :: string
  Amount :: rat
  TransactionDate :: string
  DisclosureDate :: string

record trade_row =
  trader_name :: string
  row_symbol :: string
  transaction_type :: string
  amount :: rat
  trade_date :: string
  disclosure_date :: string

record manual_row =
  m_trader_name :: string
  m_symbol :: string
  m_transaction_type :: string
  m_amount :: rat
  m_trade_date :: string
  processed :: bool

record bot_state =
  userPortfolio :: portfolio
  trades_tbl :: "trade_row list"
  recommendations_tbl :: "recommendation list"
  manual_trades_tbl :: "manual_row list"
  sms_sent :: "recommendation list"
  email_sent :: "recommendation list"

subsection \<open>Trade adapters (lines 148--231)\<close>

record hsw_record =
  representative :: string
  ticker :: string
  hsw_transaction_type :: string
  hsw_amount :: string
  transaction_date :: string
  hsw_disclosure_date :: string

text \<open>
  \<open>is_recent\<close> stands for the comparison of the parsed date with seven days before now,
  \<open>parseFloat\<close> for JavaScript's on the amount string (\<open>None\<close> is NaN, which
  \<^verbatim>\<open>|| 0\<close> turns into 0). An empty string is falsy.
\<close>

definition normalizeHsw :: "(string \<Rightarrow> rat option) \<Rightarrow> hsw_record \<Rightarrow> trade" where
  "normalizeHsw parseFloat r =
     \<lparr>Representative = representative r,
      Ticker = ticker r,
      Transaction = hsw_transaction_type r,
      Amount = (case parseFloat (hsw_amount r) of None \<Rightarrow> 0 | Some v \<Rightarrow> v),
      TransactionDate = transaction_date r,
      DisclosureDate = hsw_disclosure_date r\<rparr>"

definition relevantTrade :: "portfolio \<Rightarrow> trade \<Rightarrow> bool" where
  "relevantTrade pf t =
     (Representative t \<noteq> [] \<and> Ticker t \<noteq> [] \<and>
      truthy (js_get TOP_PERFORMERS (Representative t)) \<and>
      truthy (js_get (positions pf) (Ticker t)))"

definition fetchHouseStockWatcher ::
  "(string \<Rightarrow> bool) \<Rightarrow> (string \<Rightarrow> rat option) \<Rightarrow> portfolio \<Rightarrow> hsw_record list option \<Rightarrow> trade list" where
  "fetchHouseStockWatcher is_recent parseFloat pf response =
     (case response of
        None \<Rightarrow> []
      | Some rows \<Rightarrow>
          filter (relevantTrade pf)
            (map (normalizeHsw parseFloat)
              (filter (\<lambda>r. is_recent (transaction_date r)) rows)))"

definition manualToTrade :: "string \<Rightarrow> manual_row \<Rightarrow> trade" where
  "manualToTrade today row =
     \<lparr>Representative = m_trader_name row,
      Ticker = m_symbol row,
      Transaction = m_transaction_type row,
      Amount = m_amount row,
      TransactionDate = m_trade_date row,
      DisclosureDate = today\<rparr>"

text \<open>
  The unprocessed rows, newest first, and the table with every row marked processed. A
  failing query, which gives no trades, is not modelled.
\<close>

definition fetchManualTrades :: "string \<Rightarrow> bot_state \<Rightarrow> trade list \<times> bot_state" where
  "fetchManualTrades today s =
     (let rows = rev (filter (\<lambda>r. \<not> processed r) (manual_trades_tbl s))
      in (map (manualToTrade today) rows,
          s\<lparr>manual_trades_tbl := map (\<lambda>r. r\<lparr>processed := True\<rparr>) (manual_trades_tbl s)\<rparr>))"

definition fetchCongressionalTrades ::
  "(string \<Rightarrow> bool) \<Rightarrow> (string \<Rightarrow> rat option) \<Rightarrow> string \<Rightarrow> hsw_record list option \<Rightarrow>
   bot_state \<Rightarrow> trade list \<times> bot_state" where
  "fetchCongressionalTrades is_recent parseFloat today response s =
     (let hswTrades = fetchHouseStockWatcher is_recent parseFloat (userPortfolio s) response;
          (manualTrades, s') = fetchManualTrades today s
      in (hswTrades @ manualTrades, s'))"

subsection \<open>Dispatcher (lines 321--379)\<close>

text \<open>
  A statement sequence either completes (\<open>Normal\<close>) or throws (\<open>Thrown\<close>), with the
  state reached so far.
\<close>

datatype completion = Normal bot_state | Thrown js_error bot_state

text \<open>
  The message texts are functions of the recommendation; the model records which
  recommendation each channel was called with, and the row written to the table. The
  email body reads \<^verbatim>\<open>userPortfolio.positions[symbol].currentValue.toFixed(2)\<close>, which
  throws unless the symbol is a position; the text message, if any, has gone out by then.
\<close>

definition sendBuyRecommendation :: "recommendation \<Rightarrow> bot_state \<Rightarrow> completion" where
  "sendBuyRecommendation r s =
     (let s1 = (if jgt (confidence r) (lit (7 / 10))
                then s\<lparr>sms_sent := sms_sent s @ [r]\<rparr> else s)
      in case js_get (positions (userPortfolio s1)) (symbol r) of
           Own pos \<Rightarrow>
             let s2 = s1\<lparr>email_sent := email_sent s1 @ [r]\<rparr>
             in Normal (s2\<lparr>recommendations_tbl := recommendations_tbl s2 @ [r]\<rparr>)
         | Inherited \<Rightarrow> Thrown TypeError s1
         | Undefined \<Rightarrow> Thrown TypeError s1)"

subsection \<open>Ingestion loop (lines 381--430)\<close>

definition sameTrade :: "trade \<Rightarrow> trade_row \<Rightarrow> bool" where
  \<comment> \<open>the \<^verbatim>\<open>WHERE\<close> clause of the existence query\<close>
  "sameTrade t r =
     (trader_name r = Representative t \<and> row_symbol r = Ticker t \<and>
      trade_date r = TransactionDate t \<and> amount r = Amount t)"

definition existing :: "trade_row list \<Rightarrow> trade \<Rightarrow> trade_row option" where
  "existing tbl t = find (sameTrade t) tbl"

definition rowOf :: "trade \<Rightarrow> trade_row" where
  \<comment> \<open>the values of the \<^verbatim>\<open>INSERT\<close> statement\<close>
  "rowOf t =
     \<lparr>trader_name = Representative t, row_symbol = Ticker t,
      transaction_type = Transaction t, amount = Amount t,
      trade_date = TransactionDate t, disclosure_date = DisclosureDate t\<rparr>"

definition insertTrade :: "trade \<Rightarrow> bot_state \<Rightarrow> bot_state" where
  "insertTrade t s = s\<lparr>trades_tbl := trades_tbl s @ [rowOf t]\<rparr>"

definition dispatchGate :: "recommendation \<Rightarrow> bool" where
  "dispatchGate r = (action r \<noteq> HOLD \<and> jgt (confidence r) (lit (6 / 10)))"

text \<open>
  One pass of the loop body. After \<open>Normal\<close> the loop goes on with the next trade
  (also after \<^verbatim>\<open>continue\<close>); \<open>Thrown\<close> leaves the loop for the \<^verbatim>\<open>catch\<close> block.
  \<^verbatim>\<open>parseFloat(trade.Amount) || 0\<close> is the amount of the record as a double.
\<close>

definition analyzeTrade :: "(string \<Rightarrow> jsnum option) \<Rightarrow> trade \<Rightarrow> bot_state \<Rightarrow> completion" where
  \<comment> \<open>lines 413--423\<close>
  "analyzeTrade getStockPrice t s =
     (let s1 = s\<lparr>userPortfolio := updatePortfolioValues getStockPrice (userPortfolio s)\<rparr>
      in case calculatePositionAdjustment (userPortfolio s1) (Ticker t) (Transaction t)
                (Representative t) (fl (Amount t)) of
           Inl e \<Rightarrow> Thrown e s1
         | Inr recommendation \<Rightarrow>
             if dispatchGate recommendation
             then sendBuyRecommendation recommendation s1
             else Normal s1)"

definition processTrade :: "(string \<Rightarrow> jsnum option) \<Rightarrow> trade \<Rightarrow> bot_state \<Rightarrow> completion" where
  "processTrade getStockPrice t s =
     (if existing (trades_tbl s) t \<noteq> None then Normal s
      else
        let s1 = insertTrade t s
        in if truthy (js_get TOP_PERFORMERS (Representative t)) \<and>
              truthy (js_get (positions (userPortfolio s1)) (Ticker t))
           then analyzeTrade getStockPrice t s1
           else Normal s1)"

text \<open>
  The quote service may answer differently at each refresh: \<open>quotes i\<close> is the service
  as it answers while the \<open>i\<close>-th candidate is processed.
\<close>

fun processTrades ::
  "(nat \<Rightarrow> string \<Rightarrow> jsnum option) \<Rightarrow> nat \<Rightarrow> trade list \<Rightarrow> bot_state \<Rightarrow> bot_state" where
  "processTrades quotes i [] s = s"
| "processTrades quotes i (t # ts) s =
     (case processTrade (quotes i) t s of
        Normal s' \<Rightarrow> processTrades quotes (Suc i) ts s'
      | Thrown e s' \<Rightarrow> s')"

definition processNewTrades ::
  "(string \<Rightarrow> bool) \<Rightarrow> (string \<Rightarrow> rat option) \<Rightarrow> string \<Rightarrow> hsw_record list option \<Rightarrow>
   (nat \<Rightarrow> string \<Rightarrow> jsnum option) \<Rightarrow> bot_state \<Rightarrow> bot_state" where
  "processNewTrades is_recent parseFloat today response quotes s =
     (let (trades, s') = fetchCongressionalTrades is_recent parseFloat today response s
      in processTrades quotes 0 trades s')"

subsection \<open>The rebalancing rule as the specification words it\<close>





subsection \<open>Tracked names and example inputs\<close>

definition hasOwnProperty :: "(string \<times> 'a) list \<Rightarrow> string \<Rightarrow> bool" where
  "hasOwnProperty obj k = (map_of obj k \<noteq> None)"

definition initial_state :: bot_state where
  "initial_state =
     \<lparr>userPortfolio = userPortfolio_init NaN, trades_tbl = [], recommendations_tbl = [],
      manual_trades_tbl = [], sms_sent = [], email_sent = []\<rparr>"

definition no_quotes :: "string \<Rightarrow> jsnum option" where
  "no_quotes tkr = None"

definition no_quotes_ever :: "nat \<Rightarrow> string \<Rightarrow> jsnum option" where
  "no_quotes_ever i = no_quotes"

definition zero_quote_nvda :: "string \<Rightarrow> jsnum option" where
  "zero_quote_nvda tkr = (if tkr = ''NVDA'' then Some (Fin 0) else None)"

definition pelosi_nvda :: "string \<Rightarrow> string \<Rightarrow> trade" where
  "pelosi_nvda kind disclosed =
     \<lparr>Representative = ''Nancy Pelosi'', Ticker = ''NVDA'', Transaction = kind,
      Amount = 2000000, TransactionDate = ''2024-03-01'', DisclosureDate = disclosed\<rparr>"

definition untracked_manual_row :: manual_row where
  "untracked_manual_row =
     \<lparr>m_trader_name = ''John Doe'', m_symbol = ''NVDA'', m_transaction_type = ''Purchase'',
      m_amount = 2000000, m_trade_date = ''2024-03-01'', processed = False\<rparr>"

definition stale_portfolio :: portfolio where
  "stale_portfolio =
     \<lparr>totalValue = Fin 450, cash = Fin 100,
      positions =
        [(''AAA'', \<lparr>shares = Fin 3, targetAllocation = lit (20 / 100), currentValue = Fin 150,
                   currentPrice = Fin 50\<rparr>),
         (''BBB'', \<lparr>shares = Fin 4, targetAllocation = lit (20 / 100), currentValue = Fin 200,
                   currentPrice = Fin 50\<rparr>)]\<rparr>"

definition offrange_portfolio :: portfolio where
  "offrange_portfolio =
     \<lparr>totalValue = Fin 1000, cash = Fin 800,
      positions =
        [(''HIGH'', \<lparr>shares = Fin 0, targetAllocation = lit (5 / 10), currentValue = Fin 100,
                    currentPrice = Fin 0\<rparr>),
         (''LOW'', \<lparr>shares = Fin 0, targetAllocation = lit (1 / 100), currentValue = Fin 100,
                   currentPrice = Fin 0\<rparr>)]\<rparr>"

definition quote_bbb :: "string \<Rightarrow> jsnum option" where
  "quote_bbb tkr = (if tkr = ''BBB'' then Some (Fin 40) else None)"

definition always_recent :: "string \<Rightarrow> bool" where
  "always_recent d = True"

definition parse_example :: "string \<Rightarrow> rat option" where
  "parse_example str = (if str = ''2000000'' then Some 2000000 else None)"

definition feed_example :: "hsw_record list" where
  "feed_example =
     [\<lparr>representative = ''John Doe'', ticker = ''NVDA'', hsw_transaction_type = ''Purchase'',
       hsw_amount = ''2000000'', transaction_date = ''2024-03-01'',
       hsw_disclosure_date = ''2024-03-05''\<rparr>,
      \<lparr>representative = ''Nancy Pelosi'', ticker = ''TSLA'', hsw_transaction_type = ''Purchase'',
       hsw_amount = ''2000000'', transaction_date = ''2024-03-01'',
       hsw_disclosure_date = ''2024-03-05''\<rparr>,
      \<lparr>representative = ''Nancy Pelosi'', ticker = ''NVDA'', hsw_transaction_type = ''Purchase'',
       hsw_amount = ''2000000'', transaction_date = ''2024-03-01'',
       hsw_disclosure_date = ''2024-03-05''\<rparr>]"

definition manual_backlog_state :: bot_state where
  "manual_backlog_state = initial_state\<lparr>manual_trades_tbl := [untracked_manual_row]\<rparr>"

subsection \<open>Effects of a pass and of a cycle\<close>

text \<open>
  What one pass does to each part of the state: \<open>new\<close> is the list of the
  recommendations it sent (none or one).
\<close>

definition step_effect :: "trade \<Rightarrow> bot_state \<Rightarrow> bot_state \<Rightarrow> recommendation list \<Rightarrow> bool" where
  "step_effect t s s' new =
     (trades_tbl s' = (if existing (trades_tbl s) t = None
                       then trades_tbl s @ [rowOf t] else trades_tbl s)
      \<and> manual_trades_tbl s' = manual_trades_tbl s
      \<and> recommendations_tbl s' = recommendations_tbl s @ new
      \<and> email_sent s' = email_sent s @ new
      \<and> sms_sent s' = sms_sent s @ filter (\<lambda>r. jgt (confidence r) (lit (7 / 10))) new
      \<and> list_all dispatchGate new
      \<and> (hasOwnProperty TOP_PERFORMERS (Representative t)
           \<and> hasOwnProperty (positions (userPortfolio s)) (Ticker t) \<or> new = [])
      \<and> (\<forall>k. truthy (js_get (positions (userPortfolio s')) k)
                = truthy (js_get (positions (userPortfolio s)) k))
      \<and> (\<forall>k. hasOwnProperty (positions (userPortfolio s')) k
                = hasOwnProperty (positions (userPortfolio s)) k))"

text \<open>The same for a whole run of the loop.\<close>

definition cycle_effect :: "bot_state \<Rightarrow> bot_state \<Rightarrow> recommendation list \<Rightarrow> bool" where
  "cycle_effect s s' new =
     ((\<exists>extra. trades_tbl s' = trades_tbl s @ extra)
      \<and> manual_trades_tbl s' = manual_trades_tbl s
      \<and> recommendations_tbl s' = recommendations_tbl s @ new
      \<and> email_sent s' = email_sent s @ new
      \<and> sms_sent s' = sms_sent s @ filter (\<lambda>r. jgt (confidence r) (lit (7 / 10))) new
      \<and> list_all dispatchGate new
      \<and> (\<forall>k. truthy (js_get (positions (userPortfolio s')) k)
                = truthy (js_get (positions (userPortfolio s)) k))
      \<and> (\<forall>k. hasOwnProperty (positions (userPortfolio s')) k
                = hasOwnProperty (positions (userPortfolio s)) k))"

section \<open>Properties\<close>

subsection \<open>Rounding\<close>

lemma powi_nat: "0 \<le> k \<Longrightarrow> (2::rat) powi k = 2 ^ nat k"
  by (simp add: power_int_def)

lemma powi_neg: "k \<le> 0 \<Longrightarrow> (2::rat) powi k = 1 / 2 ^ nat (- k)"
  by (cases "k = 0") (simp_all add: power_int_def field_simps)

lemma powi_less_cancel: "(2::rat) powi a < 2 powi b \<Longrightarrow> a < b"
  using power_int_increasing [of b a "2::rat"] by (cases "a < b") auto

lemma powi_mono: "a \<le> b \<Longrightarrow> (2::rat) powi a \<le> 2 powi b"
  by (rule power_int_increasing) auto

lemma powi_pos: "0 < (2::rat) powi a"
  by simp

lemma powi_add: "(2::rat) powi (a + b) = 2 powi a * 2 powi b"
  by (simp add: power_int_add)

lemma exponent_bounds:
  assumes "0 < x"
  shows "2 powi (exponent x) \<le> x" and "x < 2 powi (exponent x + 1)"
proof -
  show "2 powi (exponent x) \<le> x"
  proof (cases "1 \<le> x")
    case True
    then have n: "0 < \<lfloor>x\<rfloor>" by simp
    from bitlen_bounds [OF n] have "2 ^ nat (bitlen \<lfloor>x\<rfloor> - 1) \<le> \<lfloor>x\<rfloor>" by simp
    then have "(of_int (2 ^ nat (bitlen \<lfloor>x\<rfloor> - 1)) :: rat) \<le> of_int \<lfloor>x\<rfloor>"
      by (simp only: of_int_le_iff)
    also have "\<dots> \<le> x" by simp
    finally have "(2::rat) ^ nat (bitlen \<lfloor>x\<rfloor> - 1) \<le> x" by simp
    moreover have "0 \<le> bitlen \<lfloor>x\<rfloor> - 1"
      using n bitlen_eq_zero_iff [of "\<lfloor>x\<rfloor>"] bitlen_nonneg [of "\<lfloor>x\<rfloor>"] by linarith
    ultimately show ?thesis using True by (simp add: exponent_def powi_nat)
  next
    case False
    with assms have y: "1 < 1 / x" by (simp add: field_simps)
    then have "1 < \<lceil>1 / x\<rceil>" by (simp add: less_ceiling_iff)
    then have n: "0 < \<lceil>1 / x\<rceil> - 1" by simp
    from bitlen_bounds [OF n] have "\<lceil>1 / x\<rceil> - 1 < 2 ^ nat (bitlen (\<lceil>1 / x\<rceil> - 1))" by simp
    then have "\<lceil>1 / x\<rceil> \<le> 2 ^ nat (bitlen (\<lceil>1 / x\<rceil> - 1))" by simp
    then have "(of_int \<lceil>1 / x\<rceil> :: rat) \<le> of_int (2 ^ nat (bitlen (\<lceil>1 / x\<rceil> - 1)))"
      by (simp only: of_int_le_iff)
    moreover have "1 / x \<le> of_int \<lceil>1 / x\<rceil>" by (rule le_of_int_ceiling)
    ultimately have "1 / x \<le> of_int (2 ^ nat (bitlen (\<lceil>1 / x\<rceil> - 1)))" by linarith
    then have "1 / x \<le> 2 ^ nat (bitlen (\<lceil>1 / x\<rceil> - 1))" by simp
    with assms have "1 / 2 ^ nat (bitlen (\<lceil>1 / x\<rceil> - 1)) \<le> x"
      by (simp add: field_simps)
    moreover have "- bitlen (\<lceil>1 / x\<rceil> - 1) \<le> 0" using bitlen_nonneg by simp
    ultimately show ?thesis using False by (simp add: exponent_def powi_neg)
  qed
  show "x < 2 powi (exponent x + 1)"
  proof (cases "1 \<le> x")
    case True
    then have n: "0 < \<lfloor>x\<rfloor>" by simp
    from bitlen_bounds [OF n] have "\<lfloor>x\<rfloor> < 2 ^ nat (bitlen \<lfloor>x\<rfloor>)" by simp
    then have "\<lfloor>x\<rfloor> + 1 \<le> 2 ^ nat (bitlen \<lfloor>x\<rfloor>)" by simp
    then have "(of_int (\<lfloor>x\<rfloor> + 1) :: rat) \<le> of_int (2 ^ nat (bitlen \<lfloor>x\<rfloor>))"
      by (simp only: of_int_le_iff)
    moreover have "x < of_int (\<lfloor>x\<rfloor> + 1)" by linarith
    ultimately have "x < 2 ^ nat (bitlen \<lfloor>x\<rfloor>)" by simp
    then show ?thesis using True bitlen_nonneg [of "\<lfloor>x\<rfloor>"] by (simp add: exponent_def powi_nat)
  next
    case False
    with assms have y: "1 < 1 / x" by (simp add: field_simps)
    then have "1 < \<lceil>1 / x\<rceil>" by (simp add: less_ceiling_iff)
    then have n: "0 < \<lceil>1 / x\<rceil> - 1" by simp
    let ?b = "bitlen (\<lceil>1 / x\<rceil> - 1)"
    have b1: "1 \<le> ?b"
      using n bitlen_eq_zero_iff [of "\<lceil>1 / x\<rceil> - 1"] bitlen_nonneg [of "\<lceil>1 / x\<rceil> - 1"] by linarith
    from bitlen_bounds [OF n] have "2 ^ nat (?b - 1) \<le> \<lceil>1 / x\<rceil> - 1" by simp
    then have "(of_int (2 ^ nat (?b - 1)) :: rat) \<le> of_int (\<lceil>1 / x\<rceil> - 1)"
      by (simp only: of_int_le_iff)
    moreover have "of_int (\<lceil>1 / x\<rceil> - 1) < 1 / x" by linarith
    ultimately have "2 ^ nat (?b - 1) < 1 / x" by simp
    with assms have "x < 1 / 2 ^ nat (?b - 1)" by (simp add: field_simps)
    moreover have "- ?b + 1 \<le> 0" using b1 by simp
    moreover have "nat (- (- ?b + 1)) = nat (?b - 1)" by simp
    ultimately show ?thesis using False powi_neg [of "- ?b + 1"] by (simp add: exponent_def)
  qed
qed

lemma exponent_unique:
  assumes "0 < x" and "2 powi e \<le> x" and "x < 2 powi (e + 1)"
  shows "exponent x = e"
proof -
  from exponent_bounds [OF assms(1)] assms(2,3)
  have "(2::rat) powi (exponent x) < 2 powi (e + 1)" and "(2::rat) powi e < 2 powi (exponent x + 1)"
    by linarith+
  then have "exponent x < e + 1" and "e < exponent x + 1"
    by (auto dest: powi_less_cancel)
  then show ?thesis by simp
qed


lemma round_half_even_bounds: "\<lfloor>q\<rfloor> \<le> round_half_even q" "round_half_even q \<le> \<lceil>q\<rceil>"
proof -
  show "\<lfloor>q\<rfloor> \<le> round_half_even q"
    by (simp add: round_half_even_def Let_def)
  show "round_half_even q \<le> \<lceil>q\<rceil>"
  proof (cases "q = of_int \<lfloor>q\<rfloor>")
    case True
    then have "q - of_int \<lfloor>q\<rfloor> = 0" by simp
    then have "round_half_even q = \<lfloor>q\<rfloor>" by (simp add: round_half_even_def Let_def)
    then show ?thesis by (simp add: floor_le_ceiling)
  next
    case False
    with of_int_floor_le [of q] have "of_int \<lfloor>q\<rfloor> < q" by linarith
    then have "\<lfloor>q\<rfloor> < \<lceil>q\<rceil>" by (simp add: less_ceiling_iff)
    moreover have "round_half_even q \<le> \<lfloor>q\<rfloor> + 1"
      by (simp add: round_half_even_def Let_def)
    ultimately show ?thesis by linarith
  qed
qed

lemma round_half_even_of_int [simp]: "round_half_even (of_int n) = n"
  by (simp add: round_half_even_def)

lemma round_half_even_numeral_int [simp]: "round_half_even (numeral n) = numeral n"
  using round_half_even_of_int [of "numeral n"] by simp

lemma round_half_even_divide:
  assumes "0 < b"
  shows "round_half_even (of_int a / of_int b) =
           (if 2 * (a mod b) < b then a div b
            else if b < 2 * (a mod b) then a div b + 1
            else if even (a div b) then a div b else a div b + 1)"
proof -
  let ?q = "(of_int a / of_int b) :: rat"
  have f: "\<lfloor>?q\<rfloor> = a div b" by (rule floor_divide_of_int_eq)
  have "a = b * (a div b) + a mod b" by simp
  then have "(of_int a :: rat) = of_int b * of_int (a div b) + of_int (a mod b)"
    by (metis of_int_add of_int_mult)
  then have d: "?q - of_int (a div b) = of_int (a mod b) / of_int b"
    using assms by (simp add: field_simps)
  have lt: "(of_int (a mod b) / of_int b :: rat) < 1 / 2 \<longleftrightarrow> 2 * (a mod b) < b"
  proof -
    have "(of_int (a mod b) / of_int b :: rat) < 1 / 2
            \<longleftrightarrow> (of_int (2 * (a mod b)) :: rat) < of_int b"
      using assms by (simp add: field_simps)
    then show ?thesis by (simp only: of_int_less_iff)
  qed
  have gt: "(1 / 2 :: rat) < of_int (a mod b) / of_int b \<longleftrightarrow> b < 2 * (a mod b)"
  proof -
    have "(1 / 2 :: rat) < of_int (a mod b) / of_int b
            \<longleftrightarrow> (of_int b :: rat) < of_int (2 * (a mod b))"
      using assms by (simp add: field_simps)
    then show ?thesis by (simp only: of_int_less_iff)
  qed
  show ?thesis
    unfolding round_half_even_def Let_def f d lt gt by simp
qed

lemma round_half_even_numeral [simp]:
  "round_half_even (numeral a / numeral b) =
     (if 2 * (numeral a mod numeral b) < (numeral b :: int) then numeral a div numeral b
      else if (numeral b :: int) < 2 * (numeral a mod numeral b) then numeral a div numeral b + 1
      else if even (numeral a div numeral b :: int) then numeral a div numeral b
      else numeral a div numeral b + 1)"
  using round_half_even_divide [of "numeral b" "numeral a"] by simp

lemma round_half_even_ge: "of_int n \<le> q \<Longrightarrow> n \<le> round_half_even q"
  using round_half_even_bounds(1) [of q] le_floor_iff [of n q] by linarith

lemma round_half_even_le: "q \<le> of_int n \<Longrightarrow> round_half_even q \<le> n"
  using round_half_even_bounds(2) [of q] ceiling_le_iff [of q n] by linarith

lemma ulp_pos: "0 < ulp x"
  by (simp add: ulp_def)

lemma ulp_minus [simp]: "ulp (- x) = ulp x"
  by (simp add: ulp_def)

lemma ulp_abs [simp]: "ulp \<bar>x\<bar> = ulp x"
  by (simp add: ulp_def)

lemma rounded_nonneg: "0 \<le> rounded x"
proof -
  have "0 \<le> \<bar>x\<bar> / ulp x" using ulp_pos [of x] by simp
  then have "0 \<le> round_half_even (\<bar>x\<bar> / ulp x)"
    using round_half_even_ge [of 0] by simp
  then show ?thesis using ulp_pos [of x] by (simp add: rounded_def)
qed

lemma rounded_zero_iff: "rounded x = 0 \<longleftrightarrow> round_half_even (\<bar>x\<bar> / ulp x) = 0"
  using ulp_pos [of x] by (simp add: rounded_def)

lemma fl_pos:
  assumes "0 < x"
  shows "fl x = (if 2 powi 1024 \<le> rounded x then PosInf else Fin (rounded x))"
  using assms by (auto simp add: fl_def rounded_def Let_def)

lemma fl_neg:
  assumes "x < 0"
  shows "fl x = (if 2 powi 1024 \<le> rounded x then NegInf
                 else if rounded x = 0 then NegZero else Fin (- rounded x))"
  using assms ulp_pos [of x] by (auto simp add: fl_def rounded_def Let_def)

lemma rounded_minus [simp]: "rounded (- x) = rounded x"
  by (simp add: rounded_def)

lemma rounded_abs [simp]: "rounded \<bar>x\<bar> = rounded x"
  by (simp add: rounded_def)

text \<open>Within one binade.\<close>

lemma ulp_exponent:
  assumes "0 < x" and "2 powi e \<le> x" and "x < 2 powi (e + 1)" and "- 1022 \<le> e"
  shows "ulp x = 2 powi (e - 52)"
  using exponent_unique [OF assms(1-3)] assms(1,4) by (simp add: ulp_def)

lemma rounded_binade:
  assumes "0 < x" and "2 powi e \<le> x" and "x < 2 powi (e + 1)" and "- 1022 \<le> e"
  shows "2 powi e \<le> rounded x" and "rounded x \<le> 2 powi (e + 1)"
proof -
  let ?u = "(2::rat) powi (e - 52)"
  have u: "ulp x = ?u" using assms by (rule ulp_exponent)
  have a: "\<bar>x\<bar> = x" using assms(1) by simp
  have "52 + (e - 52) = e" and "53 + (e - 52) = e + 1" by simp_all
  with powi_add [of 52 "e - 52"] powi_add [of 53 "e - 52"]
  have "(2::rat) powi e = 2 powi 52 * ?u" and "(2::rat) powi (e + 1) = 2 powi 53 * ?u"
    by simp_all
  then have lo: "of_int (2 ^ 52) * ?u = 2 powi e" and hi: "of_int (2 ^ 53) * ?u = 2 powi (e + 1)"
    by simp_all
  have "of_int (2 ^ 52) \<le> x / ?u"
    using assms(2) lo by (simp add: field_simps)
  then have "2 ^ 52 \<le> round_half_even (x / ?u)" by (rule round_half_even_ge)
  then have "(of_int (2 ^ 52) :: rat) \<le> of_int (round_half_even (x / ?u))"
    by (simp only: of_int_le_iff)
  then have "of_int (2 ^ 52) * ?u \<le> of_int (round_half_even (x / ?u)) * ?u"
    by (simp add: mult_right_mono)
  then show "2 powi e \<le> rounded x" unfolding lo by (simp add: rounded_def u a)
  have "x / ?u \<le> of_int (2 ^ 53)"
    using assms(3) hi by (simp add: field_simps)
  then have "round_half_even (x / ?u) \<le> 2 ^ 53" by (rule round_half_even_le)
  then have "(of_int (round_half_even (x / ?u)) :: rat) \<le> of_int (2 ^ 53)"
    by (simp only: of_int_le_iff)
  then have "of_int (round_half_even (x / ?u)) * ?u \<le> of_int (2 ^ 53) * ?u"
    by (simp add: mult_right_mono)
  then show "rounded x \<le> 2 powi (e + 1)" unfolding hi by (simp add: rounded_def u a)
qed

lemma fl_eval:
  assumes "2 powi e \<le> \<bar>x\<bar>" and "\<bar>x\<bar> < 2 powi (e + 1)" and "- 1022 \<le> e" and "e \<le> 1022"
  shows "fl x = Fin ((if x < 0 then - 1 else 1)
                      * (of_int (round_half_even (\<bar>x\<bar> / 2 powi (e - 52))) * 2 powi (e - 52)))"
proof -
  have pos: "0 < \<bar>x\<bar>" using assms(1) powi_pos [of e] by linarith
  have u: "ulp x = 2 powi (e - 52)"
    using ulp_exponent [OF pos assms(1,2,3)] by simp
  have r: "rounded x = of_int (round_half_even (\<bar>x\<bar> / 2 powi (e - 52))) * 2 powi (e - 52)"
    by (simp add: rounded_def u)
  from rounded_binade [OF pos assms(1,2,3)]
  have lo: "2 powi e \<le> rounded x" and hi: "rounded x \<le> 2 powi (e + 1)" by simp_all
  have "(2::rat) powi (e + 1) < 2 powi 1024"
    using assms(4) by (intro power_int_strict_increasing) simp_all
  with hi have small: "\<not> 2 powi 1024 \<le> rounded x" by simp
  from lo powi_pos [of e] have nz: "rounded x \<noteq> 0" by linarith
  show ?thesis
  proof (cases "x < 0")
    case True
    with fl_neg [OF True] small nz r show ?thesis by simp
  next
    case False
    with pos have "0 < x" by simp
    from fl_pos [OF this] small r False show ?thesis by simp
  qed
qed


subsection \<open>Rounding does not cross a representable number\<close>

lemma exponent_mono:
  assumes "0 < t" and "t \<le> x"
  shows "exponent t \<le> exponent x"
proof -
  from assms have x: "0 < x" by simp
  from exponent_bounds(1) [OF assms(1)] exponent_bounds(2) [OF x] assms(2)
  have "(2::rat) powi (exponent t) < 2 powi (exponent x + 1)" by linarith
  then have "exponent t < exponent x + 1" by (rule powi_less_cancel)
  then show ?thesis by simp
qed

lemma rounded_lower:
  assumes "0 < x" and "- 1022 \<le> exponent x"
  shows "2 powi (exponent x) \<le> rounded x"
  using rounded_binade(1) [OF assms(1) exponent_bounds [OF assms(1)] assms(2)] .

lemma rounded_upper:
  assumes "0 < x"
  shows "rounded x \<le> 2 powi (max (exponent x) (- 1022) + 1)"
proof -
  let ?e = "max (exponent x) (- 1022)"
  let ?u = "(2::rat) powi (?e - 52)"
  have u: "ulp x = ?u" using assms by (simp add: ulp_def)
  have a: "\<bar>x\<bar> = x" using assms by simp
  have "53 + (?e - 52) = ?e + 1" by simp
  with powi_add [of 53 "?e - 52"] have hi: "of_int (2 ^ 53) * ?u = 2 powi (?e + 1)"
    by simp
  have "x < 2 powi (exponent x + 1)" using assms by (rule exponent_bounds)
  also have "\<dots> \<le> 2 powi (?e + 1)" by (rule powi_mono) simp
  finally have "x / ?u \<le> of_int (2 ^ 53)"
    using hi by (simp add: field_simps)
  then have "round_half_even (x / ?u) \<le> 2 ^ 53" by (rule round_half_even_le)
  then have "(of_int (round_half_even (x / ?u)) :: rat) \<le> of_int (2 ^ 53)"
    by (simp only: of_int_le_iff)
  then have "of_int (round_half_even (x / ?u)) * ?u \<le> of_int (2 ^ 53) * ?u"
    by (simp add: mult_right_mono)
  then show ?thesis unfolding hi by (simp add: rounded_def u a)
qed

lemma rounded_ge_representable:
  assumes "0 < t" and "t \<le> x" and "rounded t = t"
  shows "t \<le> rounded x"
proof -
  from assms have x: "0 < x" by simp
  let ?et = "max (exponent t) (- 1022)" and ?ex = "max (exponent x) (- 1022)"
  have le: "exponent t \<le> exponent x" using assms(1,2) by (rule exponent_mono)
  show ?thesis
  proof (cases "?et = ?ex")
    case True
    then have u: "ulp t = ulp x" using assms(1) x by (simp add: ulp_def)
    let ?m = "round_half_even (\<bar>t\<bar> / ulp t)"
    have t: "t = of_int ?m * ulp x" using assms(3) by (simp add: rounded_def u)
    then have "t / ulp x = of_int ?m" using ulp_pos [of x] by (simp add: field_simps)
    then have "of_int ?m \<le> \<bar>x\<bar> / ulp x"
      using assms(2) x ulp_pos [of x] by (simp add: field_simps)
    then have "?m \<le> round_half_even (\<bar>x\<bar> / ulp x)" by (rule round_half_even_ge)
    then have "(of_int ?m :: rat) \<le> of_int (round_half_even (\<bar>x\<bar> / ulp x))"
      by (simp only: of_int_le_iff)
    then have "of_int ?m * ulp x \<le> rounded x"
      using ulp_pos [of x] by (simp add: rounded_def mult_right_mono)
    with t show ?thesis by simp
  next
    case False
    with le have big: "- 1022 \<le> exponent x" and lt: "exponent t + 1 \<le> exponent x"
      by auto
    have "t < 2 powi (exponent t + 1)" using assms(1) by (rule exponent_bounds)
    also have "\<dots> \<le> 2 powi (exponent x)" using lt by (rule powi_mono)
    also have "\<dots> \<le> rounded x" using x big by (rule rounded_lower)
    finally show ?thesis by simp
  qed
qed

lemma rounded_le_representable:
  assumes "0 < x" and "x \<le> s" and "rounded s = s"
  shows "rounded x \<le> s"
proof -
  from assms have s: "0 < s" by simp
  let ?ex = "max (exponent x) (- 1022)" and ?es = "max (exponent s) (- 1022)"
  have le: "exponent x \<le> exponent s" using assms(1,2) by (rule exponent_mono)
  show ?thesis
  proof (cases "?ex = ?es")
    case True
    then have u: "ulp s = ulp x" using assms(1) s by (simp add: ulp_def)
    let ?m = "round_half_even (\<bar>s\<bar> / ulp s)"
    have t: "s = of_int ?m * ulp x" using assms(3) by (simp add: rounded_def u)
    then have "s / ulp x = of_int ?m" using ulp_pos [of x] by (simp add: field_simps)
    then have "\<bar>x\<bar> / ulp x \<le> of_int ?m"
      using assms(1,2) ulp_pos [of x] by (simp add: field_simps)
    then have "round_half_even (\<bar>x\<bar> / ulp x) \<le> ?m" by (rule round_half_even_le)
    then have "(of_int (round_half_even (\<bar>x\<bar> / ulp x)) :: rat) \<le> of_int ?m"
      by (simp only: of_int_le_iff)
    then have "rounded x \<le> of_int ?m * ulp x"
      using ulp_pos [of x] by (simp add: rounded_def mult_right_mono)
    with t show ?thesis by simp
  next
    case False
    with le have lt: "?ex + 1 \<le> exponent s" by auto
    have "rounded x \<le> 2 powi (?ex + 1)" using assms(1) by (rule rounded_upper)
    also have "\<dots> \<le> 2 powi (exponent s)" using lt by (rule powi_mono)
    also have "\<dots> \<le> s" using s by (rule exponent_bounds)
    finally show ?thesis .
  qed
qed

lemma fl_Fin_pos:
  assumes "fl t = Fin t" and "0 < t"
  shows "rounded t = t" and "t < 2 powi 1024"
  using assms fl_pos [OF assms(2)] by (auto split: if_splits)

lemma fl_Fin_neg:
  assumes "fl t = Fin t" and "t < 0"
  shows "rounded t = - t" and "- t < 2 powi 1024"
  using assms fl_neg [OF assms(2)] by (auto split: if_splits)

lemma jle_simps [simp]:
  "jle (Fin a) (Fin b) \<longleftrightarrow> a \<le> b"
  "jle (Fin a) PosInf"
  "jle NegInf (Fin b)"
  "jle (Fin a) NegZero \<longleftrightarrow> a \<le> 0"
  "jle NegZero (Fin b) \<longleftrightarrow> 0 \<le> b"
  "\<not> jle PosInf (Fin b)"
  "\<not> jle (Fin a) NegInf"
  "\<not> jle NaN c"
  "\<not> jle c NaN"
  by (auto simp: jle_def)

lemma fl_ge:
  assumes "fl t = Fin t" and "t \<le> x"
  shows "jle (Fin t) (fl x)"
proof -
  consider "x = 0" | "0 < x" | "x < 0" by linarith
  then show ?thesis
  proof cases
    case 1
    with assms(2) show ?thesis by (simp add: fl_def)
  next
    case 2
    have "t \<le> rounded x"
    proof (cases "0 < t")
      case True
      with assms 2 show ?thesis
        by (intro rounded_ge_representable fl_Fin_pos)
    next
      case False
      with rounded_nonneg [of x] show ?thesis by simp
    qed
    then show ?thesis by (simp add: fl_pos [OF 2])
  next
    case 3
    with assms(2) have t: "t < 0" by simp
    from fl_Fin_neg [OF assms(1) t] have r: "rounded (- t) = - t" and b: "- t < 2 powi 1024"
      by simp_all
    have "rounded (- x) \<le> - t"
      using 3 assms(2) r by (intro rounded_le_representable) simp_all
    then have le: "rounded x \<le> - t" by simp
    with b have "\<not> 2 powi 1024 \<le> rounded x" by simp
    with le t show ?thesis by (simp add: fl_neg [OF 3])
  qed
qed

lemma fl_le:
  assumes "fl s = Fin s" and "x \<le> s"
  shows "jle (fl x) (Fin s)"
proof -
  consider "x = 0" | "0 < x" | "x < 0" by linarith
  then show ?thesis
  proof cases
    case 1
    with assms(2) show ?thesis by (simp add: fl_def)
  next
    case 2
    with assms(2) have s: "0 < s" by simp
    from fl_Fin_pos [OF assms(1) s] have r: "rounded s = s" and b: "s < 2 powi 1024"
      by simp_all
    have le: "rounded x \<le> s" using 2 assms(2) r by (rule rounded_le_representable)
    with b have "\<not> 2 powi 1024 \<le> rounded x" by simp
    with le show ?thesis by (simp add: fl_pos [OF 2])
  next
    case 3
    have "- s \<le> rounded x"
    proof (cases "s < 0")
      case True
      from fl_Fin_neg [OF assms(1) True] have r: "rounded (- s) = - s" by simp
      have "- s \<le> rounded (- x)"
        using True assms(2) r by (intro rounded_ge_representable) simp_all
      then show ?thesis by simp
    next
      case False
      with rounded_nonneg [of x] show ?thesis by simp
    qed
    moreover have "0 \<le> s" if "rounded x = 0"
      using that \<open>- s \<le> rounded x\<close> by simp
    ultimately show ?thesis by (auto simp add: fl_neg [OF 3])
  qed
qed

subsection \<open>Evaluation\<close>

text \<open>
  Rounding a given number is computed from the binade it lies in (\<open>fl_eval\<close>); the
  binades of the numbers in the examples:
\<close>

lemmas fl_evals =
  fl_eval [where e = "-8"] fl_eval [where e = "-7"] fl_eval [where e = "-6"]
  fl_eval [where e = "-5"] fl_eval [where e = "-4"] fl_eval [where e = "-3"]
  fl_eval [where e = "-2"] fl_eval [where e = "-1"] fl_eval [where e = "0"]
  fl_eval [where e = "1"] fl_eval [where e = "2"] fl_eval [where e = "3"]
  fl_eval [where e = "4"] fl_eval [where e = "5"] fl_eval [where e = "6"]
  fl_eval [where e = "7"] fl_eval [where e = "8"] fl_eval [where e = "9"]
  fl_eval [where e = "10"] fl_eval [where e = "18"]

lemma fl_zero [simp]: "fl 0 = Fin 0"
  by (simp add: fl_def)

lemmas js_evals = lit_def jmul_def jdiv_def jsub_def jmin_def jmax_def jgt_def js_or_def
  falsy_def signed_zero_def signed_inf_def

subsection \<open>Lookups\<close>

lemma js_get_Own_iff: "(\<exists>v. js_get obj k = Own v) \<longleftrightarrow> hasOwnProperty obj k"
  by (auto simp: js_get_def hasOwnProperty_def split: option.splits)



lemma traderWeight_untracked:
  "\<not> hasOwnProperty TOP_PERFORMERS actor \<Longrightarrow> traderWeight actor = lit (5 / 10)"
  by (simp add: traderWeight_def js_get_def hasOwnProperty_def)

lemma traderWeight_Pelosi: "traderWeight ''Nancy Pelosi'' = Fin 1"
  by (simp add: traderWeight_def js_get_def TOP_PERFORMERS_def js_or_def falsy_def)

lemma initial_NVDA:
  "js_get (positions (userPortfolio_init NaN)) ''NVDA''
     = Own \<lparr>shares = Fin 0, targetAllocation = lit (20 / 100), currentValue = Fin 200,
            currentPrice = Fin 0\<rparr>"
  by (simp add: js_get_def userPortfolio_init_def)

lemma initial_GOOGL:
  "js_get (positions (userPortfolio_init NaN)) ''GOOGL''
     = Own \<lparr>shares = Fin 0, targetAllocation = lit (10 / 100), currentValue = Fin 100,
            currentPrice = Fin 0\<rparr>"
  by (simp add: js_get_def userPortfolio_init_def)

lemma initial_totalValue: "totalValue (userPortfolio_init NaN) = Fin 1000"
  by (simp add: userPortfolio_init_def js_or_def falsy_def)

subsection \<open>The recommendation engine\<close>

lemma calculatePositionAdjustment_Own:
  assumes "js_get (positions pf) tkr = Own pos"
  shows "calculatePositionAdjustment pf tkr act actor amt =
     (let w = traderWeight actor;
          hold = holdRecommendation tkr (js_or (currentPrice pos) (Fin 0))
      in if act = ''Purchase'' \<or> act = ''Buy'' then
           let nt = newTargetPurchase (targetAllocation pos) (tradeImpact amt w);
               additional = jsub (jmul nt (totalValue pf)) (currentValue pos)
           in if jgt additional (Fin 10) then
                Inr (hold\<lparr>action := BUY, recommendedAmount := additional,
                      sharesToTrade := jdiv additional (priceOr100 (currentPrice pos)),
                      reason := Bought actor amt (percentOf (currentValue pos) (totalValue pf))
                                  (jmul nt (Fin 100)),
                      confidence := jmul w (lit (9 / 10))\<rparr>)
              else Inr hold
         else if act = ''Sale'' \<or> act = ''Sell'' then
           let nt = newTargetSale (targetAllocation pos) (tradeImpact amt w);
               reduction = jsub (currentValue pos) (jmul nt (totalValue pf))
           in if jgt reduction (Fin 10) then
                Inr (hold\<lparr>action := SELL, recommendedAmount := reduction,
                      sharesToTrade := jdiv reduction (priceOr100 (currentPrice pos)),
                      reason := Sold actor amt (percentOf (currentValue pos) (totalValue pf))
                                  (jmul nt (Fin 100)),
                      confidence := jmul w (lit (8 / 10))\<rparr>)
              else Inr hold
         else Inr hold)"
  using assms by (simp add: calculatePositionAdjustment_def percentOf_def Let_def)

lemma scenario_1:
  "calculatePositionAdjustment (userPortfolio_init NaN) ''NVDA'' ''Purchase'' ''Nancy Pelosi''
       (Fin 2000000)
     = Inr \<lparr>symbol = ''NVDA'', action = BUY, rec_currentPrice = Fin 0,
            recommendedAmount = Fin 150, sharesToTrade = Fin (3 / 2),
            reason = Bought ''Nancy Pelosi'' (Fin 2000000) (Fin 20) (Fin 35),
            confidence = lit (9 / 10)\<rparr>"
  by (simp add: calculatePositionAdjustment_Own [OF initial_NVDA] traderWeight_Pelosi
      initial_totalValue tradeImpact_def newTargetPurchase_def holdRecommendation_def
      priceOr100_def percentOf_def js_evals fl_evals)

lemma scenario_2:
  "calculatePositionAdjustment (userPortfolio_init NaN) ''GOOGL'' ''Sale'' ''Nancy Pelosi''
       (Fin 100000)
     = Inr \<lparr>symbol = ''GOOGL'', action = SELL, rec_currentPrice = Fin 0,
            recommendedAmount = Fin 50, sharesToTrade = Fin (1 / 2),
            reason = Sold ''Nancy Pelosi'' (Fin 100000) (Fin 10) (Fin 5),
            confidence = lit (8 / 10)\<rparr>"
  by (simp add: calculatePositionAdjustment_Own [OF initial_GOOGL] traderWeight_Pelosi
      initial_totalValue tradeImpact_def newTargetSale_def holdRecommendation_def
      priceOr100_def percentOf_def js_evals fl_evals)

text \<open>
  A purchase of 10000 by the same actor: the new target is 0.21000000000000002, the
  target value 210.00000000000003, and the difference to the current value of 200 is
  10.000000000000028, which is above 10.
\<close>

lemma threshold_purchase:
  "calculatePositionAdjustment (userPortfolio_init NaN) ''NVDA'' ''Purchase'' ''Nancy Pelosi''
       (Fin 10000)
     = Inr \<lparr>symbol = ''NVDA'', action = BUY, rec_currentPrice = Fin 0,
            recommendedAmount = Fin (351843720888321 / 35184372088832),
            sharesToTrade = Fin (3602879701896407 / 36028797018963968),
            reason = Bought ''Nancy Pelosi'' (Fin 10000) (Fin 20)
                       (Fin (5910974510923777 / 281474976710656)),
            confidence = lit (9 / 10)\<rparr>"
  by (simp add: calculatePositionAdjustment_Own [OF initial_NVDA] traderWeight_Pelosi
      initial_totalValue tradeImpact_def newTargetPurchase_def holdRecommendation_def
      priceOr100_def percentOf_def js_evals fl_evals)

text \<open>
  A sale by the actor of weight 0.75 has the confidence 0.6000000000000001, which is
  above the 0.6 of the gate.
\<close>

lemma roger_williams_sale_confidence:
  "jmul (traderWeight ''Roger Williams'') (lit (8 / 10))
     = Fin (1351079888211149 / 2251799813685248)
   \<and> jgt (jmul (traderWeight ''Roger Williams'') (lit (8 / 10))) (lit (6 / 10))"
  by (simp add: traderWeight_def js_get_def TOP_PERFORMERS_def js_evals fl_evals)



lemma offrange_HIGH:
  "js_get (positions offrange_portfolio) ''HIGH''
     = Own \<lparr>shares = Fin 0, targetAllocation = lit (5 / 10), currentValue = Fin 100,
            currentPrice = Fin 0\<rparr>"
  by (simp add: js_get_def offrange_portfolio_def)

lemma offrange_LOW:
  "js_get (positions offrange_portfolio) ''LOW''
     = Own \<lparr>shares = Fin 0, targetAllocation = lit (1 / 100), currentValue = Fin 100,
            currentPrice = Fin 0\<rparr>"
  by (simp add: js_get_def offrange_portfolio_def)

lemma offrange_totalValue: "totalValue offrange_portfolio = Fin 1000"
  by (simp add: offrange_portfolio_def)

text \<open>
  C5, as stated, fails: with a target allocation of 0.5, inside (0,1], a purchase gives
  the new target 0.35, below the target; with a target allocation of 0.01 a sale gives
  0.05, above the target. The engine reports these new targets, 35 and 5 percent, in the
  rationale of its recommendation.
\<close>

theorem newTarget_counterexample:
  "newTargetPurchase (lit (5 / 10)) (tradeImpact (Fin 2000000) (Fin 1)) = lit (35 / 100)
   \<and> \<not> jle (lit (5 / 10)) (newTargetPurchase (lit (5 / 10)) (tradeImpact (Fin 2000000) (Fin 1)))
   \<and> newTargetSale (lit (1 / 100)) (tradeImpact (Fin 100000) (Fin 1)) = lit (5 / 100)
   \<and> \<not> jle (newTargetSale (lit (1 / 100)) (tradeImpact (Fin 100000) (Fin 1))) (lit (1 / 100))
   \<and> calculatePositionAdjustment offrange_portfolio ''HIGH'' ''Purchase'' ''Nancy Pelosi''
         (Fin 2000000)
       = Inr \<lparr>symbol = ''HIGH'', action = BUY, rec_currentPrice = Fin 0,
              recommendedAmount = Fin 250, sharesToTrade = Fin (5 / 2),
              reason = Bought ''Nancy Pelosi'' (Fin 2000000) (Fin 10) (Fin 35),
              confidence = lit (9 / 10)\<rparr>
   \<and> calculatePositionAdjustment offrange_portfolio ''LOW'' ''Sale'' ''Nancy Pelosi''
         (Fin 100000)
       = Inr \<lparr>symbol = ''LOW'', action = SELL, rec_currentPrice = Fin 0,
              recommendedAmount = Fin 50, sharesToTrade = Fin (1 / 2),
              reason = Sold ''Nancy Pelosi'' (Fin 100000) (Fin 10) (Fin 5),
              confidence = lit (8 / 10)\<rparr>"
proof -
  have a: "newTargetPurchase (lit (5 / 10)) (tradeImpact (Fin 2000000) (Fin 1)) = lit (35 / 100)
     \<and> \<not> jle (lit (5 / 10)) (newTargetPurchase (lit (5 / 10)) (tradeImpact (Fin 2000000) (Fin 1)))
     \<and> newTargetSale (lit (1 / 100)) (tradeImpact (Fin 100000) (Fin 1)) = lit (5 / 100)
     \<and> \<not> jle (newTargetSale (lit (1 / 100)) (tradeImpact (Fin 100000) (Fin 1))) (lit (1 / 100))"
    by (simp add: newTargetPurchase_def newTargetSale_def tradeImpact_def js_evals fl_evals)
  have b: "calculatePositionAdjustment offrange_portfolio ''HIGH'' ''Purchase'' ''Nancy Pelosi''
         (Fin 2000000)
       = Inr \<lparr>symbol = ''HIGH'', action = BUY, rec_currentPrice = Fin 0,
              recommendedAmount = Fin 250, sharesToTrade = Fin (5 / 2),
              reason = Bought ''Nancy Pelosi'' (Fin 2000000) (Fin 10) (Fin 35),
              confidence = lit (9 / 10)\<rparr>"
    by (simp add: calculatePositionAdjustment_Own [OF offrange_HIGH] traderWeight_Pelosi
        offrange_totalValue tradeImpact_def newTargetPurchase_def holdRecommendation_def
        priceOr100_def percentOf_def js_evals fl_evals)
  have c: "calculatePositionAdjustment offrange_portfolio ''LOW'' ''Sale'' ''Nancy Pelosi''
         (Fin 100000)
       = Inr \<lparr>symbol = ''LOW'', action = SELL, rec_currentPrice = Fin 0,
              recommendedAmount = Fin 50, sharesToTrade = Fin (1 / 2),
              reason = Sold ''Nancy Pelosi'' (Fin 100000) (Fin 10) (Fin 5),
              confidence = lit (8 / 10)\<rparr>"
    by (simp add: calculatePositionAdjustment_Own [OF offrange_LOW] traderWeight_Pelosi
        offrange_totalValue tradeImpact_def newTargetSale_def holdRecommendation_def
        priceOr100_def percentOf_def js_evals fl_evals)
  from a b c show ?thesis by blast
qed

subsection \<open>Bounds of the new target\<close>

lemma jless_asym: "jless a b \<Longrightarrow> \<not> jless b a"
  by (cases a; cases b) simp_all

lemma jless_irrefl [simp]: "\<not> jless a a"
  by (cases a) simp_all

lemma jmin_cases:
  assumes "a \<noteq> NaN" and "b \<noteq> NaN"
  shows "jmin a b = a \<and> jle a b \<or> jmin a b = b \<and> jle b a"
  using assms jless_asym [of a b] by (auto simp: jmin_def jle_def)

lemma jmax_cases:
  assumes "a \<noteq> NaN" and "b \<noteq> NaN"
  shows "jmax a b = a \<and> jle b a \<or> jmax a b = b \<and> jle a b"
  using assms jless_asym [of a b] by (auto simp: jmax_def jle_def)

lemma jle_refl: "a \<noteq> NaN \<Longrightarrow> jle a a"
  by (simp add: jle_def)

lemma jle_not_NaN: "jle a b \<Longrightarrow> a \<noteq> NaN \<and> b \<noteq> NaN"
  by (simp add: jle_def)

lemma fl_nonneg: "0 \<le> x \<Longrightarrow> jle (Fin 0) (fl x)"
  using fl_ge [of 0 x] by simp

lemma fl_not_NaN [simp]: "fl x \<noteq> NaN"
  by (simp add: fl_def Let_def)

lemma lit_not_NaN [simp]: "lit x \<noteq> NaN"
  by (simp add: lit_def)

lemma lit_15: "\<exists>c. lit (15 / 100) = Fin c \<and> 0 < c"
proof -
  have e: "lit (15 / 100) = Fin (5404319552844595 / 36028797018963968)"
    by (simp add: lit_def fl_evals)
  show ?thesis
    unfolding e by (rule exI [of _ "5404319552844595 / 36028797018963968"]) simp
qed

text \<open>The zeros and the positive finite numbers.\<close>

lemma nonneg_cases:
  assumes "jle (Fin 0) a" and "\<not> is_inf a"
  shows "a = NegZero \<or> (\<exists>x. a = Fin x \<and> 0 \<le> x)"
  using assms by (cases a) simp_all

lemma jdiv_million:
  assumes "finite_double amt" and "jle (Fin 0) amt"
  shows "jdiv amt (Fin 1000000) = NegZero \<or> (\<exists>y. jdiv amt (Fin 1000000) = Fin y \<and> 0 \<le> y)"
proof (cases amt)
  case (Fin x)
  with assms have x: "0 \<le> x" "fl x = Fin x" by simp_all
  show ?thesis
  proof (cases "x = 0")
    case True
    with Fin show ?thesis by (simp add: jdiv_def signed_zero_def)
  next
    case False
    with x have "x / 1000000 \<le> x" by simp
    from fl_le [OF x(2) this] have le: "jle (fl (x / 1000000)) (Fin x)" .
    have nn: "jle (Fin 0) (fl (x / 1000000))"
      using x(1) by (intro fl_nonneg) simp
    from le nn have "\<not> is_inf (fl (x / 1000000))"
      by (cases "fl (x / 1000000)") simp_all
    with nn have "fl (x / 1000000) = NegZero \<or> (\<exists>y. fl (x / 1000000) = Fin y \<and> 0 \<le> y)"
      by (intro nonneg_cases)
    with Fin False show ?thesis by (simp add: jdiv_def)
  qed
next
  case NegZero
  then show ?thesis by (simp add: jdiv_def signed_zero_def)
qed (use assms in simp_all)

lemma tradeImpact_nonneg:
  assumes "finite_double amt" and "jle (Fin 0) amt" and "finite_double w" and "jle (Fin 0) w"
  shows "tradeImpact amt w = NegZero \<or> (\<exists>i. tradeImpact amt w = Fin i \<and> 0 \<le> i)"
proof -
  let ?d = "jdiv amt (Fin 1000000)"
  obtain c where c: "lit (15 / 100) = Fin c" "0 < c"
    using lit_15 by blast
  from jdiv_million [OF assms(1,2)]
  have d: "?d = NegZero \<or> (\<exists>y. ?d = Fin y \<and> 0 \<le> y)" .
  from assms(3,4) have w: "w = NegZero \<or> (\<exists>z. w = Fin z \<and> 0 \<le> z)"
    by (intro nonneg_cases) (cases w; simp)+
  have m: "jmul ?d w = NegZero \<or> jmul ?d w = PosInf \<or> (\<exists>i. jmul ?d w = Fin i \<and> 0 \<le> i)"
  proof (cases "is_zero ?d \<or> is_zero w")
    case True
    with d w show ?thesis by (auto simp: jmul_def signed_zero_def)
  next
    case False
    with d w obtain y z where yz: "?d = Fin y" "w = Fin z" "0 < y" "0 < z" by auto
    then have "0 < y * z" by simp
    from fl_pos [OF this] rounded_nonneg [of "y * z"] yz show ?thesis
      by (auto simp: jmul_def)
  qed
  have "jmin (jmul ?d w) (Fin c) = NegZero
      \<or> (\<exists>i. jmin (jmul ?d w) (Fin c) = Fin i \<and> 0 \<le> i)"
    using m c(2) by (auto simp: jmin_def)
  then show ?thesis unfolding tradeImpact_def c(1) .
qed

lemma jadd_nonneg_ge:
  assumes "finite_double target" and "impact = NegZero \<or> (\<exists>i. impact = Fin i \<and> 0 \<le> i)"
  shows "jle target (jadd target impact)"
proof (cases target)
  case (Fin t)
  with assms(1) have t: "fl t = Fin t" by simp
  from assms(2) show ?thesis
  proof
    assume "impact = NegZero"
    with Fin show ?thesis by simp
  next
    assume "\<exists>i. impact = Fin i \<and> 0 \<le> i"
    then obtain i where i: "impact = Fin i" "0 \<le> i" by blast
    then have "t \<le> t + i" by simp
    from fl_ge [OF t this] Fin i show ?thesis by simp
  qed
next
  case NegZero
  with assms(2) show ?thesis by (auto simp: jle_def)
qed (use assms in simp_all)

lemma jsub_nonneg_le:
  assumes "finite_double target" and "impact = NegZero \<or> (\<exists>i. impact = Fin i \<and> 0 \<le> i)"
  shows "jle (jsub target impact) target"
proof (cases target)
  case (Fin t)
  with assms(1) have t: "fl t = Fin t" by simp
  from assms(2) show ?thesis
  proof
    assume "impact = NegZero"
    with Fin t show ?thesis by (simp add: jsub_def)
  next
    assume "\<exists>i. impact = Fin i \<and> 0 \<le> i"
    then obtain i where i: "impact = Fin i" "0 \<le> i" by blast
    then have "t - i \<le> t" by simp
    from fl_le [OF t this] Fin i show ?thesis by (simp add: jsub_def)
  qed
next
  case NegZero
  with assms(2) show ?thesis by (auto simp: jsub_def jle_def split: if_splits)
qed (use assms in simp_all)

lemma newTargetPurchase_bounds:
  assumes "finite_double target" and "impact = NegZero \<or> (\<exists>i. impact = Fin i \<and> 0 \<le> i)"
  shows "jle (newTargetPurchase target impact) (lit (35 / 100))"
    and "jle target (lit (35 / 100)) \<Longrightarrow> jle target (newTargetPurchase target impact)"
proof -
  let ?s = "jadd target impact"
  let ?c = "lit (35 / 100)"
  have s: "jle target ?s" using assms by (rule jadd_nonneg_ge)
  then have n: "?s \<noteq> NaN" "?c \<noteq> NaN" by (simp_all add: jle_def)
  from jmin_cases [OF n] jle_refl [OF n(2)]
  show "jle (newTargetPurchase target impact) ?c"
    by (auto simp: newTargetPurchase_def)
  from jmin_cases [OF n] s
  show "jle target ?c \<Longrightarrow> jle target (newTargetPurchase target impact)"
    by (auto simp: newTargetPurchase_def)
qed

lemma newTargetSale_bounds:
  assumes "finite_double target" and "impact = NegZero \<or> (\<exists>i. impact = Fin i \<and> 0 \<le> i)"
  shows "jle (lit (5 / 100)) (newTargetSale target impact)"
    and "jle (lit (5 / 100)) target \<Longrightarrow> jle (newTargetSale target impact) target"
proof -
  let ?s = "jsub target impact"
  let ?c = "lit (5 / 100)"
  have s: "jle ?s target" using assms by (rule jsub_nonneg_le)
  then have n: "?s \<noteq> NaN" "?c \<noteq> NaN" by (simp_all add: jle_def)
  from jmax_cases [OF n] jle_refl [OF n(2)]
  show "jle ?c (newTargetSale target impact)"
    by (auto simp: newTargetSale_def)
  from jmax_cases [OF n] s
  show "jle ?c target \<Longrightarrow> jle (newTargetSale target impact) target"
    by (auto simp: newTargetSale_def)
qed

text \<open>
  C5, amended. For a target allocation, an amount and a weight that are finite numbers,
  amount and weight not negative, the new target of a purchase is at most 0.35, and at
  least the target allocation when that is at most 0.35; the new target of a sale is at
  least 0.05, and at most the target allocation when that is at least 0.05. On the
  initial portfolio, scenario 1 gives the new target 0.35 (35 percent), BUY and
  confidence 0.9, and scenario 2 gives 0.05, SELL and 0.8.
\<close>

theorem newTarget_bounds:
  assumes "finite_double target"
    and "finite_double amt" and "jle (Fin 0) amt"
    and "finite_double w" and "jle (Fin 0) w"
  shows "jle (newTargetPurchase target (tradeImpact amt w)) (lit (35 / 100))
       \<and> (jle target (lit (35 / 100))
            \<longrightarrow> jle target (newTargetPurchase target (tradeImpact amt w)))
       \<and> jle (lit (5 / 100)) (newTargetSale target (tradeImpact amt w))
       \<and> (jle (lit (5 / 100)) target
            \<longrightarrow> jle (newTargetSale target (tradeImpact amt w)) target)
       \<and> newTargetPurchase (lit (20 / 100))
            (tradeImpact (Fin 2000000) (traderWeight ''Nancy Pelosi'')) = lit (35 / 100)
       \<and> calculatePositionAdjustment (userPortfolio_init NaN) ''NVDA'' ''Purchase''
            ''Nancy Pelosi'' (Fin 2000000)
          = Inr \<lparr>symbol = ''NVDA'', action = BUY, rec_currentPrice = Fin 0,
                 recommendedAmount = Fin 150, sharesToTrade = Fin (3 / 2),
                 reason = Bought ''Nancy Pelosi'' (Fin 2000000) (Fin 20) (Fin 35),
                 confidence = lit (9 / 10)\<rparr>
       \<and> newTargetSale (lit (10 / 100))
            (tradeImpact (Fin 100000) (traderWeight ''Nancy Pelosi'')) = lit (5 / 100)
       \<and> calculatePositionAdjustment (userPortfolio_init NaN) ''GOOGL'' ''Sale''
            ''Nancy Pelosi'' (Fin 100000)
          = Inr \<lparr>symbol = ''GOOGL'', action = SELL, rec_currentPrice = Fin 0,
                 recommendedAmount = Fin 50, sharesToTrade = Fin (1 / 2),
                 reason = Sold ''Nancy Pelosi'' (Fin 100000) (Fin 10) (Fin 5),
                 confidence = lit (8 / 10)\<rparr>"
proof -
  have impact: "tradeImpact amt w = NegZero \<or> (\<exists>i. tradeImpact amt w = Fin i \<and> 0 \<le> i)"
    using assms(2-5) by (rule tradeImpact_nonneg)
  have s1: "newTargetPurchase (lit (20 / 100))
              (tradeImpact (Fin 2000000) (traderWeight ''Nancy Pelosi'')) = lit (35 / 100)"
    by (simp add: traderWeight_Pelosi newTargetPurchase_def tradeImpact_def js_evals fl_evals)
  have s2: "newTargetSale (lit (10 / 100))
              (tradeImpact (Fin 100000) (traderWeight ''Nancy Pelosi'')) = lit (5 / 100)"
    by (simp add: traderWeight_Pelosi newTargetSale_def tradeImpact_def js_evals fl_evals)
  from newTargetPurchase_bounds [OF assms(1) impact] newTargetSale_bounds [OF assms(1) impact]
    s1 s2 scenario_1 scenario_2
  show ?thesis by blast
qed

theorem newTarget_bounds_witness:
  "finite_double (lit (25 / 100)) \<and> finite_double (Fin 500000) \<and> jle (Fin 0) (Fin 500000)
   \<and> finite_double (lit (8 / 10)) \<and> jle (Fin 0) (lit (8 / 10))
   \<and> jle (lit (25 / 100)) (lit (35 / 100)) \<and> jle (lit (5 / 100)) (lit (25 / 100))
   \<and> newTargetPurchase (lit (25 / 100)) (tradeImpact (Fin 500000) (lit (8 / 10)))
       = lit (35 / 100)
   \<and> newTargetSale (lit (25 / 100)) (tradeImpact (Fin 500000) (lit (8 / 10)))
       = lit (10 / 100)"
  using newTarget_bounds [of "lit (25 / 100)" "Fin 500000" "lit (8 / 10)"]
  by (simp add: newTargetPurchase_def newTargetSale_def tradeImpact_def js_evals fl_evals)

text \<open>
  C10. On a ticker for which the portfolio object has a property (a position, that is,
  line 235 finds something to read), a transaction kind other than Purchase, Buy, Sale
  and Sell gives HOLD with confidence 0 and no exception. Every HOLD result has amount,
  share count and confidence 0, and every BUY or SELL result has an amount above 10.
\<close>

theorem unrecognized_kind_is_hold:
  assumes "truthy (js_get (positions pf) tkr)"
  shows "(act \<notin> {''Purchase'', ''Buy'', ''Sale'', ''Sell''} \<longrightarrow>
            (\<exists>r. calculatePositionAdjustment pf tkr act actor amt = Inr r
               \<and> action r = HOLD \<and> confidence r = Fin 0))
       \<and> (\<forall>r. calculatePositionAdjustment pf tkr act actor amt = Inr r \<longrightarrow>
            (action r = HOLD \<longrightarrow>
               recommendedAmount r = Fin 0 \<and> sharesToTrade r = Fin 0 \<and> confidence r = Fin 0)
          \<and> (action r = BUY \<or> action r = SELL \<longrightarrow> jgt (recommendedAmount r) (Fin 10)))"
  using assms
  by (cases "js_get (positions pf) tkr")
     (auto simp add: calculatePositionAdjustment_def holdRecommendation_def Let_def
        split: if_splits)

theorem unrecognized_kind_is_hold_witness:
  "truthy (js_get (positions (userPortfolio_init NaN)) ''NVDA'')
   \<and> ''Exchange'' \<notin> {''Purchase'', ''Buy'', ''Sale'', ''Sell''}
   \<and> calculatePositionAdjustment (userPortfolio_init NaN) ''NVDA'' ''Exchange''
        ''Nancy Pelosi'' (Fin 2000000) = Inr (holdRecommendation ''NVDA'' (Fin 0))
   \<and> action (holdRecommendation ''NVDA'' (Fin 0)) = HOLD
   \<and> recommendedAmount (holdRecommendation ''NVDA'' (Fin 0)) = Fin 0
   \<and> sharesToTrade (holdRecommendation ''NVDA'' (Fin 0)) = Fin 0
   \<and> confidence (holdRecommendation ''NVDA'' (Fin 0)) = Fin 0
   \<and> (\<exists>r. calculatePositionAdjustment (userPortfolio_init NaN) ''NVDA'' ''Purchase''
             ''Nancy Pelosi'' (Fin 2000000) = Inr r
          \<and> action r = BUY \<and> recommendedAmount r = Fin 150
          \<and> jgt (recommendedAmount r) (Fin 10))"
proof -
  have t: "truthy (js_get (positions (userPortfolio_init NaN)) ''NVDA'')"
    by (simp add: initial_NVDA)
  have c: "calculatePositionAdjustment (userPortfolio_init NaN) ''NVDA'' ''Exchange''
        ''Nancy Pelosi'' (Fin 2000000) = Inr (holdRecommendation ''NVDA'' (Fin 0))"
    by (simp add: calculatePositionAdjustment_Own [OF initial_NVDA] js_or_def falsy_def)
  have hold: "action (holdRecommendation ''NVDA'' (Fin 0)) = HOLD
     \<and> recommendedAmount (holdRecommendation ''NVDA'' (Fin 0)) = Fin 0
     \<and> sharesToTrade (holdRecommendation ''NVDA'' (Fin 0)) = Fin 0
     \<and> confidence (holdRecommendation ''NVDA'' (Fin 0)) = Fin 0"
    using unrecognized_kind_is_hold [OF t, of "''Exchange''" "''Nancy Pelosi''" "Fin 2000000"] c
    by simp
  have buy: "\<exists>r. calculatePositionAdjustment (userPortfolio_init NaN) ''NVDA'' ''Purchase''
             ''Nancy Pelosi'' (Fin 2000000) = Inr r
          \<and> action r = BUY \<and> recommendedAmount r = Fin 150
          \<and> jgt (recommendedAmount r) (Fin 10)"
    using unrecognized_kind_is_hold [OF t, of "''Purchase''" "''Nancy Pelosi''" "Fin 2000000"]
      scenario_1
    by simp
  from t c hold buy show ?thesis by simp
qed

subsection \<open>The price refresh\<close>

lemma map_of_refreshPositions:
  "map_of (refreshPositions q ps) k
     = map_option (\<lambda>pos. refreshPosition pos (q k)) (map_of ps k)"
  by (induction ps) auto

lemma js_get_refreshPositions:
  "js_get (refreshPositions q ps) k =
     (case js_get ps k of
        Own pos \<Rightarrow> Own (refreshPosition pos (q k))
      | Inherited \<Rightarrow> Inherited
      | Undefined \<Rightarrow> Undefined)"
  by (simp add: js_get_def map_of_refreshPositions split: option.splits)

lemma positions_updatePortfolioValues:
  "positions (updatePortfolioValues q pf) = refreshPositions q (positions pf)"
  by (simp add: updatePortfolioValues_def Let_def)

lemma truthy_updatePortfolioValues:
  "truthy (js_get (positions (updatePortfolioValues q pf)) k)
     = truthy (js_get (positions pf) k)"
  by (simp add: positions_updatePortfolioValues js_get_refreshPositions split: js_prop.splits)

lemma hasOwnProperty_updatePortfolioValues:
  "hasOwnProperty (positions (updatePortfolioValues q pf)) k
     = hasOwnProperty (positions pf) k"
  by (simp add: positions_updatePortfolioValues hasOwnProperty_def map_of_refreshPositions)

lemma refresh_stale_portfolio:
  "updatePortfolioValues quote_bbb stale_portfolio =
     \<lparr>totalValue = Fin 410, cash = Fin 100,
      positions =
        [(''AAA'', \<lparr>shares = Fin 3, targetAllocation = lit (20 / 100), currentValue = Fin 150,
                   currentPrice = Fin 50\<rparr>),
         (''BBB'', \<lparr>shares = Fin 4, targetAllocation = lit (20 / 100), currentValue = Fin 160,
                   currentPrice = Fin 40\<rparr>)]\<rparr>"
  by (simp add: updatePortfolioValues_def stale_portfolio_def quote_bbb_def
      refreshPosition_def Let_def js_evals fl_evals)

text \<open>
  When the refreshed total is a finite number, it is the cash plus the sum of the
  positions' values, whatever the tolerance: the two sums differ in the order of their
  last addition only.
\<close>

lemma jadd_commute: "jadd a b = jadd b a"
  by (cases a; cases b) (simp_all add: add.commute)

lemma jsub_self: "finite_double a \<Longrightarrow> jsub a a = Fin 0"
  by (cases a) (simp_all add: jsub_def)

lemma total_within_finite:
  assumes "finite_double (totalValue (updatePortfolioValues getStockPrice pf))" and "0 < eps"
  shows "total_within (Fin eps) (updatePortfolioValues getStockPrice pf)"
proof -
  let ?pf = "updatePortfolioValues getStockPrice pf"
  have "jadd (cash ?pf)
          (foldl (\<lambda>acc (tkr, pos). jadd acc (currentValue pos)) (Fin 0) (positions ?pf))
        = totalValue ?pf"
    by (simp add: updatePortfolioValues_def Let_def jadd_commute)
  with assms show ?thesis
    by (simp add: total_within_def jsub_self jabs_def)
qed

lemma initial_refresh_zero_quote:
  "updatePortfolioValues zero_quote_nvda (userPortfolio_init NaN) =
     \<lparr>totalValue = NaN, cash = Fin 100,
      positions =
        [(''QQQ'', \<lparr>shares = Fin 0, targetAllocation = lit (25 / 100), currentValue = Fin 250,
                   currentPrice = Fin 0\<rparr>),
         (''NVDA'', \<lparr>shares = PosInf, targetAllocation = lit (20 / 100), currentValue = NaN,
                    currentPrice = Fin 0\<rparr>),
         (''MSFT'', \<lparr>shares = Fin 0, targetAllocation = lit (20 / 100), currentValue = Fin 200,
                    currentPrice = Fin 0\<rparr>),
         (''AAPL'', \<lparr>shares = Fin 0, targetAllocation = lit (15 / 100), currentValue = Fin 150,
                    currentPrice = Fin 0\<rparr>),
         (''GOOGL'', \<lparr>shares = Fin 0, targetAllocation = lit (10 / 100), currentValue = Fin 100,
                     currentPrice = Fin 0\<rparr>)]\<rparr>"
  by (simp add: updatePortfolioValues_def userPortfolio_init_def zero_quote_nvda_def
      refreshPosition_def Let_def js_evals fl_evals)

text \<open>
  C7. The invariant does not hold after every refresh. The quote service answers with
  the price 0 for one position of the initial portfolio, which holds no shares: the
  refresh divides the position's value by the price, the share count becomes infinite,
  the value of the position, the infinite count times 0, is not a number, and neither
  is the new total. The total is then at no distance below any tolerance from the cash
  plus the sum of the positions' values.
\<close>

theorem zero_quote_breaks_totalValue:
  "js_get (positions (updatePortfolioValues zero_quote_nvda (userPortfolio_init NaN))) ''NVDA''
     = Own \<lparr>shares = PosInf, targetAllocation = lit (20 / 100), currentValue = NaN,
            currentPrice = Fin 0\<rparr>
   \<and> totalValue (updatePortfolioValues zero_quote_nvda (userPortfolio_init NaN)) = NaN
   \<and> \<not> jeq (totalValue (updatePortfolioValues zero_quote_nvda (userPortfolio_init NaN)))
         (jadd (cash (updatePortfolioValues zero_quote_nvda (userPortfolio_init NaN)))
            (foldl (\<lambda>acc (tkr, pos). jadd acc (currentValue pos)) (Fin 0)
               (positions (updatePortfolioValues zero_quote_nvda (userPortfolio_init NaN)))))
   \<and> (\<forall>eps. \<not> total_within eps
                  (updatePortfolioValues zero_quote_nvda (userPortfolio_init NaN)))"
  unfolding initial_refresh_zero_quote
  by (simp add: js_get_def total_within_def jsub_def jabs_def jeq_def)

text \<open>
  C9. A position whose quote is unavailable is the same after the refresh: price,
  shares and value are the stale ones. In the example the position with price 50 and
  3 shares keeps the value 150, which is part of the recomputed total.
\<close>

theorem unavailable_quote_keeps_position:
  assumes "js_get (positions pf) tkr = Own pos" and "getStockPrice tkr = None"
  shows "js_get (positions (updatePortfolioValues getStockPrice pf)) tkr = Own pos"
  using assms
  by (simp add: positions_updatePortfolioValues js_get_refreshPositions refreshPosition_def)

theorem unavailable_quote_keeps_position_witness:
  "js_get (positions stale_portfolio) ''AAA''
     = Own \<lparr>shares = Fin 3, targetAllocation = lit (20 / 100), currentValue = Fin 150,
            currentPrice = Fin 50\<rparr>
   \<and> quote_bbb ''AAA'' = None
   \<and> js_get (positions (updatePortfolioValues quote_bbb stale_portfolio)) ''AAA''
     = Own \<lparr>shares = Fin 3, targetAllocation = lit (20 / 100), currentValue = Fin 150,
            currentPrice = Fin 50\<rparr>
   \<and> js_get (positions (updatePortfolioValues quote_bbb stale_portfolio)) ''BBB''
     = Own \<lparr>shares = Fin 4, targetAllocation = lit (20 / 100), currentValue = Fin 160,
            currentPrice = Fin 40\<rparr>
   \<and> totalValue (updatePortfolioValues quote_bbb stale_portfolio) = Fin (100 + 150 + 160)"
proof -
  have a: "js_get (positions stale_portfolio) ''AAA''
     = Own \<lparr>shares = Fin 3, targetAllocation = lit (20 / 100), currentValue = Fin 150,
            currentPrice = Fin 50\<rparr>"
    by (simp add: js_get_def stale_portfolio_def)
  have b: "quote_bbb ''AAA'' = None"
    by (simp add: quote_bbb_def)
  have c: "js_get (positions (updatePortfolioValues quote_bbb stale_portfolio)) ''BBB''
     = Own \<lparr>shares = Fin 4, targetAllocation = lit (20 / 100), currentValue = Fin 160,
            currentPrice = Fin 40\<rparr>"
    by (simp add: refresh_stale_portfolio js_get_def)
  have d: "totalValue (updatePortfolioValues quote_bbb stale_portfolio) = Fin (100 + 150 + 160)"
    by (simp add: refresh_stale_portfolio)
  from unavailable_quote_keeps_position [of stale_portfolio "''AAA''" _ quote_bbb, OF a b] a b c d
  show ?thesis by simp
qed

subsection \<open>One pass of the ingestion loop\<close>

lemma calculatePositionAdjustment_truthy:
  assumes "truthy (js_get (positions pf) tkr)"
  shows "\<exists>r. calculatePositionAdjustment pf tkr act actor amt = Inr r"
  using assms
  by (cases "js_get (positions pf) tkr")
     (auto simp add: calculatePositionAdjustment_def Let_def)

lemma confidence_cases:
  assumes "calculatePositionAdjustment pf tkr act actor amt = Inr r"
  shows "action r = HOLD
       \<or> confidence r = jmul (traderWeight actor) (lit (9 / 10))
       \<or> confidence r = jmul (traderWeight actor) (lit (8 / 10))"
  using assms
  by (cases "js_get (positions pf) tkr")
     (auto simp add: calculatePositionAdjustment_def holdRecommendation_def Let_def
        split: if_splits)

lemma untracked_actor_fails_gate:
  assumes "\<not> hasOwnProperty TOP_PERFORMERS actor"
    and "calculatePositionAdjustment pf tkr act actor amt = Inr r"
  shows "\<not> dispatchGate r"
proof -
  have low: "\<not> jgt (jmul (lit (5 / 10)) (lit (9 / 10))) (lit (6 / 10))"
    "\<not> jgt (jmul (lit (5 / 10)) (lit (8 / 10))) (lit (6 / 10))"
    by (simp_all add: js_evals fl_evals)
  from confidence_cases [OF assms(2)] show ?thesis
    unfolding traderWeight_untracked [OF assms(1)] dispatchGate_def using low by auto
qed

lemma untracked_ticker_fails_gate:
  assumes "\<not> hasOwnProperty (positions pf) tkr"
    and "calculatePositionAdjustment pf tkr act actor amt = Inr r"
  shows "\<not> dispatchGate r"
proof (cases "js_get (positions pf) tkr")
  case (Own pos)
  with assms(1) js_get_Own_iff [of "positions pf" tkr] show ?thesis by simp
next
  case Inherited
  with assms(2) show ?thesis
    by (auto simp add: calculatePositionAdjustment_def holdRecommendation_def dispatchGate_def)
next
  case Undefined
  with assms(2) show ?thesis
    by (simp add: calculatePositionAdjustment_def)
qed

lemma calculatePositionAdjustment_symbol:
  assumes "calculatePositionAdjustment pf tkr act actor amt = Inr r"
  shows "symbol r = tkr"
  using assms
  by (cases "js_get (positions pf) tkr")
     (auto simp add: calculatePositionAdjustment_def holdRecommendation_def Let_def
        split: if_splits)

lemma sendBuyRecommendation_Own:
  assumes "js_get (positions (userPortfolio s)) (symbol r) = Own pos"
  shows "\<exists>s'. sendBuyRecommendation r s = Normal s'
           \<and> trades_tbl s' = trades_tbl s
           \<and> userPortfolio s' = userPortfolio s
           \<and> manual_trades_tbl s' = manual_trades_tbl s
           \<and> recommendations_tbl s' = recommendations_tbl s @ [r]
           \<and> email_sent s' = email_sent s @ [r]
           \<and> sms_sent s' = sms_sent s @ (if jgt (confidence r) (lit (7 / 10)) then [r] else [])"
  using assms by (simp add: sendBuyRecommendation_def Let_def)

lemma insertTrade_fields:
  "trades_tbl (insertTrade t s) = trades_tbl s @ [rowOf t]"
  "userPortfolio (insertTrade t s) = userPortfolio s"
  "manual_trades_tbl (insertTrade t s) = manual_trades_tbl s"
  "recommendations_tbl (insertTrade t s) = recommendations_tbl s"
  "email_sent (insertTrade t s) = email_sent s"
  "sms_sent (insertTrade t s) = sms_sent s"
  by (simp_all add: insertTrade_def)

lemma analyzeTrade_Normal:
  assumes "truthy (js_get (positions (userPortfolio s)) (Ticker t))"
  shows "\<exists>r s'. calculatePositionAdjustment (updatePortfolioValues q (userPortfolio s))
                  (Ticker t) (Transaction t) (Representative t) (fl (Amount t)) = Inr r
           \<and> analyzeTrade q t s = Normal s'
           \<and> userPortfolio s' = updatePortfolioValues q (userPortfolio s)
           \<and> trades_tbl s' = trades_tbl s
           \<and> manual_trades_tbl s' = manual_trades_tbl s
           \<and> recommendations_tbl s' = recommendations_tbl s @ (if dispatchGate r then [r] else [])
           \<and> email_sent s' = email_sent s @ (if dispatchGate r then [r] else [])
           \<and> sms_sent s' = sms_sent s
                 @ (if dispatchGate r \<and> jgt (confidence r) (lit (7 / 10)) then [r] else [])"
proof -
  let ?pf = "updatePortfolioValues q (userPortfolio s)"
  let ?s1 = "s\<lparr>userPortfolio := ?pf\<rparr>"
  have "truthy (js_get (positions ?pf) (Ticker t))"
    using assms by (simp add: truthy_updatePortfolioValues)
  then obtain r where r: "calculatePositionAdjustment ?pf (Ticker t) (Transaction t)
       (Representative t) (fl (Amount t)) = Inr r"
    using calculatePositionAdjustment_truthy by blast
  show ?thesis
  proof (cases "dispatchGate r")
    case False
    with r have "analyzeTrade q t s = Normal ?s1"
      by (simp add: analyzeTrade_def Let_def)
    with r False show ?thesis by simp
  next
    case True
    with untracked_ticker_fails_gate [OF _ r] have "hasOwnProperty (positions ?pf) (Ticker t)"
      by blast
    then obtain pos where "js_get (positions ?pf) (Ticker t) = Own pos"
      using js_get_Own_iff [of "positions ?pf" "Ticker t"] by blast
    then have "js_get (positions (userPortfolio ?s1)) (symbol r) = Own pos"
      using calculatePositionAdjustment_symbol [OF r] by simp
    from sendBuyRecommendation_Own [OF this] obtain s' where
      s': "sendBuyRecommendation r ?s1 = Normal s'"
      "trades_tbl s' = trades_tbl ?s1" "userPortfolio s' = userPortfolio ?s1"
      "manual_trades_tbl s' = manual_trades_tbl ?s1"
      "recommendations_tbl s' = recommendations_tbl ?s1 @ [r]"
      "email_sent s' = email_sent ?s1 @ [r]"
      "sms_sent s' = sms_sent ?s1 @ (if jgt (confidence r) (lit (7 / 10)) then [r] else [])"
      by blast
    from r True s'(1) have "analyzeTrade q t s = Normal s'"
      by (simp add: analyzeTrade_def Let_def)
    with r True s'(2-) show ?thesis by simp
  qed
qed

lemma step_effect_analyzeTrade:
  assumes "existing (trades_tbl s) t = None"
    and "truthy (js_get (positions (userPortfolio s)) (Ticker t))"
  shows "\<exists>s' new. analyzeTrade q t (insertTrade t s) = Normal s' \<and> step_effect t s s' new"
proof -
  let ?s1 = "insertTrade t s"
  from assms(2) have "truthy (js_get (positions (userPortfolio ?s1)) (Ticker t))"
    by (simp add: insertTrade_fields)
  from analyzeTrade_Normal [OF this, of q] obtain r s' where
    r: "calculatePositionAdjustment (updatePortfolioValues q (userPortfolio ?s1)) (Ticker t)
          (Transaction t) (Representative t) (fl (Amount t)) = Inr r"
    and a: "analyzeTrade q t ?s1 = Normal s'"
    and f: "userPortfolio s' = updatePortfolioValues q (userPortfolio ?s1)"
      "trades_tbl s' = trades_tbl ?s1"
      "manual_trades_tbl s' = manual_trades_tbl ?s1"
      "recommendations_tbl s' = recommendations_tbl ?s1 @ (if dispatchGate r then [r] else [])"
      "email_sent s' = email_sent ?s1 @ (if dispatchGate r then [r] else [])"
      "sms_sent s' = sms_sent ?s1 @ (if dispatchGate r \<and> jgt (confidence r) (lit (7 / 10)) then [r] else [])"
    by blast
  have tracked: "hasOwnProperty TOP_PERFORMERS (Representative t)
      \<and> hasOwnProperty (positions (userPortfolio s)) (Ticker t)" if "dispatchGate r"
    using untracked_actor_fails_gate [OF _ r] untracked_ticker_fails_gate [OF _ r] that
    by (auto simp: hasOwnProperty_updatePortfolioValues insertTrade_fields)
  have "step_effect t s s' (if dispatchGate r then [r] else [])"
    using assms(1) f tracked
    by (simp add: step_effect_def insertTrade_fields truthy_updatePortfolioValues
        hasOwnProperty_updatePortfolioValues)
  with a show ?thesis by blast
qed

lemma processTrade_step:
  "\<exists>s' new. processTrade q t s = Normal s' \<and> step_effect t s s' new"
proof (cases "existing (trades_tbl s) t = None")
  case seen: False
  then have "processTrade q t s = Normal s" by (simp add: processTrade_def)
  moreover from seen have "step_effect t s s []" by (simp add: step_effect_def)
  ultimately show ?thesis by blast
next
  case fresh: True
  show ?thesis
  proof (cases "truthy (js_get TOP_PERFORMERS (Representative t)) \<and>
                truthy (js_get (positions (userPortfolio s)) (Ticker t))")
    case True
    with fresh have "processTrade q t s = analyzeTrade q t (insertTrade t s)"
      by (simp add: processTrade_def Let_def insertTrade_fields)
    with step_effect_analyzeTrade [OF fresh, of q] True show ?thesis by simp
  next
    case False
    with fresh have "processTrade q t s = Normal (insertTrade t s)"
      by (auto simp add: processTrade_def Let_def insertTrade_fields)
    moreover from fresh have "step_effect t s (insertTrade t s) []"
      by (simp add: step_effect_def insertTrade_fields)
    ultimately show ?thesis by blast
  qed
qed

lemma existing_iff:
  "existing tbl t = None \<longleftrightarrow>
     \<not> (\<exists>r\<in>set tbl. trader_name r = Representative t \<and> row_symbol r = Ticker t \<and>
        trade_date r = TransactionDate t \<and> amount r = Amount t)"
  by (auto simp: existing_def sameTrade_def find_None_iff)

lemma existing_append:
  "existing tbl t \<noteq> None \<Longrightarrow> existing (tbl @ extra) t \<noteq> None"
  unfolding existing_iff by auto

lemma existing_rowOf: "existing (tbl @ [rowOf t]) t \<noteq> None"
  unfolding existing_iff by (simp add: rowOf_def)

subsection \<open>The whole loop\<close>

lemma processTrades_effect:
  "\<exists>new. cycle_effect s (processTrades quotes i ts s) new"
proof (induction ts arbitrary: i s)
  case Nil
  have "cycle_effect s s []" by (simp add: cycle_effect_def)
  then show ?case by auto
next
  case (Cons t ts)
  obtain s' new1 where s': "processTrade (quotes i) t s = Normal s'"
    and e: "step_effect t s s' new1"
    using processTrade_step by blast
  obtain new2 where c: "cycle_effect s' (processTrades quotes (Suc i) ts s') new2"
    using Cons.IH by blast
  from e c have "cycle_effect s (processTrades quotes (Suc i) ts s') (new1 @ new2)"
    unfolding step_effect_def cycle_effect_def by (auto split: if_splits)
  with s' show ?case by auto
qed

lemma processTrades_all_existing:
  "\<forall>t\<in>set ts. existing (trades_tbl (processTrades quotes i ts s)) t \<noteq> None"
proof (induction ts arbitrary: i s)
  case Nil
  then show ?case by simp
next
  case (Cons t ts)
  obtain s' new1 where s': "processTrade (quotes i) t s = Normal s'"
    and e: "step_effect t s s' new1"
    using processTrade_step by blast
  have here: "existing (trades_tbl s') t \<noteq> None"
    using e existing_rowOf [of "trades_tbl s" t]
    by (cases "existing (trades_tbl s) t = None") (simp_all add: step_effect_def)
  obtain new2 extra where
    "trades_tbl (processTrades quotes (Suc i) ts s') = trades_tbl s' @ extra"
    using processTrades_effect [of s' quotes "Suc i" ts] by (auto simp: cycle_effect_def)
  with here have "existing (trades_tbl (processTrades quotes (Suc i) ts s')) t \<noteq> None"
    using existing_append [of "trades_tbl s'" t extra] by simp
  with Cons.IH [of "Suc i" s'] s' show ?case by simp
qed

lemma processTrades_known:
  "\<forall>t\<in>set ts. existing (trades_tbl s) t \<noteq> None \<Longrightarrow> processTrades quotes i ts s = s"
  by (induction ts arbitrary: i) (simp_all add: processTrade_def)

lemma processTrades_untracked:
  assumes "\<forall>t\<in>set ts. \<not> (hasOwnProperty TOP_PERFORMERS (Representative t)
                         \<and> hasOwnProperty (positions (userPortfolio s)) (Ticker t))"
  shows "recommendations_tbl (processTrades quotes i ts s) = recommendations_tbl s
       \<and> email_sent (processTrades quotes i ts s) = email_sent s
       \<and> sms_sent (processTrades quotes i ts s) = sms_sent s"
  using assms
proof (induction ts arbitrary: i s)
  case Nil
  then show ?case by simp
next
  case (Cons t ts)
  obtain s' new1 where s': "processTrade (quotes i) t s = Normal s'"
    and e: "step_effect t s s' new1"
    using processTrade_step by blast
  from e Cons.prems have n: "new1 = []"
    by (auto simp: step_effect_def)
  from e have keys: "\<And>k. hasOwnProperty (positions (userPortfolio s')) k
                = hasOwnProperty (positions (userPortfolio s)) k"
    by (simp add: step_effect_def)
  from Cons.prems keys
  have "\<forall>t\<in>set ts. \<not> (hasOwnProperty TOP_PERFORMERS (Representative t)
                         \<and> hasOwnProperty (positions (userPortfolio s')) (Ticker t))"
    by simp
  from Cons.IH [OF this, of "Suc i"] e n s' show ?case
    by (simp add: step_effect_def)
qed

subsection \<open>Deduplication\<close>

lemma initial_refresh_no_quotes:
  "updatePortfolioValues no_quotes (userPortfolio_init NaN) = userPortfolio_init NaN"
  by (simp add: updatePortfolioValues_def userPortfolio_init_def no_quotes_def
      refreshPosition_def Let_def js_evals fl_evals)

lemma processTrade_duplicate:
  assumes "existing (trades_tbl s) t \<noteq> None"
  shows "processTrade q t s = Normal s"
  using assms by (simp add: processTrade_def)

lemma processTrade_fresh:
  assumes "existing (trades_tbl s) t = None"
  shows "\<exists>s'. processTrade q t s = Normal s' \<and> trades_tbl s' = trades_tbl s @ [rowOf t]"
  using processTrade_step [of q t s] assms by (auto simp: step_effect_def)

text \<open>
  C3. A candidate is rejected (the pass changes nothing) exactly when the trade table has
  a row with the same actor, ticker, trade date and amount; otherwise it is appended to
  the table. Of two candidates with the same four values, whatever their disclosure
  dates and transaction kinds, processed one after the other against a table without
  such a row, only the first is written.
\<close>

theorem duplicate_iff_same_identity_tuple:
  "(if \<exists>r\<in>set (trades_tbl s).
         trader_name r = Representative t \<and> row_symbol r = Ticker t \<and>
         trade_date r = TransactionDate t \<and> amount r = Amount t
    then processTrade q t s = Normal s
    else \<exists>s'. processTrade q t s = Normal s' \<and> trades_tbl s' = trades_tbl s @ [rowOf t])
   \<and> (Representative t2 = Representative t \<and> Ticker t2 = Ticker t \<and>
       TransactionDate t2 = TransactionDate t \<and> Amount t2 = Amount t \<and>
       existing (trades_tbl s) t = None
       \<longrightarrow> trades_tbl (processTrades quotes i [t, t2] s) = trades_tbl s @ [rowOf t])"
proof -
  have one: "if \<exists>r\<in>set (trades_tbl s).
         trader_name r = Representative t \<and> row_symbol r = Ticker t \<and>
         trade_date r = TransactionDate t \<and> amount r = Amount t
    then processTrade q t s = Normal s
    else \<exists>s'. processTrade q t s = Normal s' \<and> trades_tbl s' = trades_tbl s @ [rowOf t]"
    using processTrade_duplicate [of s t q] processTrade_fresh [of s t q]
      existing_iff [of "trades_tbl s" t]
    by (cases "existing (trades_tbl s) t = None") auto
  have two: "trades_tbl (processTrades quotes i [t, t2] s) = trades_tbl s @ [rowOf t]"
    if same: "Representative t2 = Representative t" "Ticker t2 = Ticker t"
      "TransactionDate t2 = TransactionDate t" "Amount t2 = Amount t"
      and fresh: "existing (trades_tbl s) t = None"
  proof -
    from processTrade_fresh [OF fresh] obtain s' where
      s': "processTrade (quotes i) t s = Normal s'"
      "trades_tbl s' = trades_tbl s @ [rowOf t]" by blast
    have "existing (trades_tbl s') t2 \<noteq> None"
      unfolding existing_iff using s'(2) same by (simp add: rowOf_def)
    then have "processTrade (quotes (Suc i)) t2 s' = Normal s'"
      by (rule processTrade_duplicate)
    with s' show ?thesis by simp
  qed
  from one two show ?thesis by blast
qed

theorem duplicate_iff_same_identity_tuple_witness:
  "existing (trades_tbl initial_state) (pelosi_nvda ''Sale'' ''2024-03-05'') = None
   \<and> Transaction (pelosi_nvda ''Purchase'' ''2024-03-20'') \<noteq> Transaction (pelosi_nvda ''Sale'' ''2024-03-05'')
   \<and> DisclosureDate (pelosi_nvda ''Purchase'' ''2024-03-20'') \<noteq> DisclosureDate (pelosi_nvda ''Sale'' ''2024-03-05'')
   \<and> trades_tbl (processTrades no_quotes_ever 0
        [pelosi_nvda ''Sale'' ''2024-03-05'', pelosi_nvda ''Purchase'' ''2024-03-20'']
        initial_state)
     = [\<lparr>trader_name = ''Nancy Pelosi'', row_symbol = ''NVDA'', transaction_type = ''Sale'',
         amount = 2000000, trade_date = ''2024-03-01'', disclosure_date = ''2024-03-05''\<rparr>]"
proof -
  have fresh: "existing (trades_tbl initial_state) (pelosi_nvda ''Sale'' ''2024-03-05'') = None"
    by (simp add: existing_def initial_state_def)
  have same: "Representative (pelosi_nvda ''Purchase'' ''2024-03-20'')
                = Representative (pelosi_nvda ''Sale'' ''2024-03-05'')
      \<and> Ticker (pelosi_nvda ''Purchase'' ''2024-03-20'') = Ticker (pelosi_nvda ''Sale'' ''2024-03-05'')
      \<and> TransactionDate (pelosi_nvda ''Purchase'' ''2024-03-20'')
          = TransactionDate (pelosi_nvda ''Sale'' ''2024-03-05'')
      \<and> Amount (pelosi_nvda ''Purchase'' ''2024-03-20'') = Amount (pelosi_nvda ''Sale'' ''2024-03-05'')"
    by (simp add: pelosi_nvda_def)
  have "trades_tbl (processTrades no_quotes_ever 0
        [pelosi_nvda ''Sale'' ''2024-03-05'', pelosi_nvda ''Purchase'' ''2024-03-20'']
        initial_state)
     = trades_tbl initial_state @ [rowOf (pelosi_nvda ''Sale'' ''2024-03-05'')]"
    using duplicate_iff_same_identity_tuple [of initial_state "pelosi_nvda ''Sale'' ''2024-03-05''"
        "no_quotes" "pelosi_nvda ''Purchase'' ''2024-03-20''" no_quotes_ever 0] fresh same
    by blast
  then show ?thesis using fresh
    by (simp add: initial_state_def rowOf_def pelosi_nvda_def)
qed

subsection \<open>Idempotence\<close>

lemma fetchHouseStockWatcher_cong:
  assumes "\<And>k. truthy (js_get (positions pf') k) = truthy (js_get (positions pf) k)"
  shows "fetchHouseStockWatcher is_recent parseFloat pf' response
       = fetchHouseStockWatcher is_recent parseFloat pf response"
proof -
  have "relevantTrade pf' = relevantTrade pf"
    by (rule ext) (simp add: relevantTrade_def assms)
  then show ?thesis by (cases response) (simp_all add: fetchHouseStockWatcher_def)
qed

lemma processNewTrades_unfold:
  "processNewTrades is_recent parseFloat today response quotes s =
     processTrades quotes 0
       (fetchHouseStockWatcher is_recent parseFloat (userPortfolio s) response
          @ map (manualToTrade today) (rev (filter (\<lambda>r. \<not> processed r) (manual_trades_tbl s))))
       (s\<lparr>manual_trades_tbl := map (\<lambda>r. r\<lparr>processed := True\<rparr>) (manual_trades_tbl s)\<rparr>)"
  by (simp add: processNewTrades_def fetchCongressionalTrades_def fetchManualTrades_def Let_def)

text \<open>
  C4. Running the loop again over the same candidate list, whatever the quotes are the
  second time, leaves the state as it is: no trade is written. The same holds for the
  whole of \<open>processNewTrades\<close> run twice against the same answer of the feed.
\<close>

theorem second_run_accepts_nothing:
  "processTrades quotes2 j ts (processTrades quotes1 i ts s) = processTrades quotes1 i ts s
   \<and> processNewTrades is_recent parseFloat today2 response quotes2
         (processNewTrades is_recent parseFloat today1 response quotes1 s)
     = processNewTrades is_recent parseFloat today1 response quotes1 s"
proof -
  have loop: "processTrades quotes2 j ts (processTrades quotes1 i ts s)
                = processTrades quotes1 i ts s" for j ts i s
    by (rule processTrades_known) (rule processTrades_all_existing)
  let ?hsw = "fetchHouseStockWatcher is_recent parseFloat (userPortfolio s) response"
  let ?man = "map (manualToTrade today1) (rev (filter (\<lambda>r. \<not> processed r) (manual_trades_tbl s)))"
  let ?s0 = "s\<lparr>manual_trades_tbl := map (\<lambda>r. r\<lparr>processed := True\<rparr>) (manual_trades_tbl s)\<rparr>"
  let ?s1 = "processTrades quotes1 0 (?hsw @ ?man) ?s0"
  have first: "processNewTrades is_recent parseFloat today1 response quotes1 s = ?s1"
    by (rule processNewTrades_unfold)
  obtain new where eff: "cycle_effect ?s0 ?s1 new"
    using processTrades_effect by blast
  have man: "manual_trades_tbl ?s1 = map (\<lambda>r. r\<lparr>processed := True\<rparr>) (manual_trades_tbl s)"
    using eff by (simp add: cycle_effect_def)
  have none_left: "filter (\<lambda>r. \<not> processed r) (manual_trades_tbl ?s1) = []"
    unfolding man by (induction "manual_trades_tbl s") (simp_all add: filter_empty_conv)
  have marked: "map (\<lambda>r. r\<lparr>processed := True\<rparr>) (manual_trades_tbl ?s1) = manual_trades_tbl ?s1"
    unfolding man by simp
  have hsw: "fetchHouseStockWatcher is_recent parseFloat (userPortfolio ?s1) response = ?hsw"
  proof (rule trans [OF fetchHouseStockWatcher_cong])
    show "truthy (js_get (positions (userPortfolio ?s1)) k)
            = truthy (js_get (positions (userPortfolio ?s0)) k)" for k
      using eff by (simp add: cycle_effect_def)
    show "fetchHouseStockWatcher is_recent parseFloat (userPortfolio ?s0) response = ?hsw"
      by simp
  qed
  have "processNewTrades is_recent parseFloat today2 response quotes2 ?s1
          = processTrades quotes2 0 ?hsw ?s1"
    unfolding processNewTrades_unfold [of _ _ _ _ _ ?s1] hsw none_left marked by simp
  also have "\<dots> = ?s1"
  proof (rule processTrades_known)
    show "\<forall>t\<in>set ?hsw. existing (trades_tbl ?s1) t \<noteq> None"
      using processTrades_all_existing [of "?hsw @ ?man" quotes1 0 ?s0] by simp
  qed
  finally show ?thesis using loop first by simp
qed

subsection \<open>The dispatch gate\<close>

lemma initial_truthy_NVDA:
  "truthy (js_get (positions (userPortfolio initial_state)) ''NVDA'')"
  by (simp add: initial_state_def initial_NVDA)

lemma Pelosi_truthy: "truthy (js_get TOP_PERFORMERS ''Nancy Pelosi'')"
  by (simp add: js_get_def TOP_PERFORMERS_def)

lemma amount_is_double: "fl 2000000 = Fin 2000000"
  by (simp add: fl_eval [where e = "20"])

lemma exchange_is_hold:
  "calculatePositionAdjustment (userPortfolio_init NaN) ''NVDA'' ''Exchange''
      ''Nancy Pelosi'' (Fin 2000000) = Inr (holdRecommendation ''NVDA'' (Fin 0))"
  by (simp add: calculatePositionAdjustment_Own [OF initial_NVDA] js_or_def falsy_def)

lemma analyzeTrade_eval:
  assumes "calculatePositionAdjustment (updatePortfolioValues q (userPortfolio s)) (Ticker t)
             (Transaction t) (Representative t) (fl (Amount t)) = Inr r"
    and "\<not> dispatchGate r"
  shows "analyzeTrade q t s
           = Normal (s\<lparr>userPortfolio := updatePortfolioValues q (userPortfolio s)\<rparr>)"
  using assms by (simp add: analyzeTrade_def Let_def)

text \<open>
  C2, as stated, fails: a recommendation that does not pass the gate is written nowhere.
  A tracked actor's trade of an unrecognised kind on a tracked ticker is analysed, the
  recommendation computed is HOLD, and after the cycle the recommendation table is
  still empty and no email was sent.
\<close>

theorem hold_recommendation_not_persisted:
  "calculatePositionAdjustment
      (updatePortfolioValues no_quotes
         (userPortfolio (insertTrade (pelosi_nvda ''Exchange'' ''2024-03-05'') initial_state)))
      ''NVDA'' ''Exchange'' ''Nancy Pelosi'' (Fin 2000000) = Inr (holdRecommendation ''NVDA'' (Fin 0))
   \<and> processTrades no_quotes_ever 0 [pelosi_nvda ''Exchange'' ''2024-03-05''] initial_state
      = insertTrade (pelosi_nvda ''Exchange'' ''2024-03-05'') initial_state
   \<and> recommendations_tbl
        (processTrades no_quotes_ever 0 [pelosi_nvda ''Exchange'' ''2024-03-05''] initial_state)
      = []
   \<and> email_sent
        (processTrades no_quotes_ever 0 [pelosi_nvda ''Exchange'' ''2024-03-05''] initial_state)
      = []"
proof -
  let ?t = "pelosi_nvda ''Exchange'' ''2024-03-05''"
  let ?s1 = "insertTrade ?t initial_state"
  have fields: "Ticker ?t = ''NVDA''" "Transaction ?t = ''Exchange''"
    "Representative ?t = ''Nancy Pelosi''" "Amount ?t = 2000000"
    by (simp_all add: pelosi_nvda_def)
  have upd: "updatePortfolioValues no_quotes (userPortfolio ?s1) = userPortfolio_init NaN"
    by (simp add: insertTrade_fields initial_state_def initial_refresh_no_quotes)
  have same: "?s1\<lparr>userPortfolio := userPortfolio_init NaN\<rparr> = ?s1"
    by (simp add: insertTrade_def initial_state_def)
  have calc: "calculatePositionAdjustment (updatePortfolioValues no_quotes (userPortfolio ?s1))
                (Ticker ?t) (Transaction ?t) (Representative ?t) (fl (Amount ?t))
              = Inr (holdRecommendation ''NVDA'' (Fin 0))"
    unfolding upd fields amount_is_double by (rule exchange_is_hold)
  have "\<not> dispatchGate (holdRecommendation ''NVDA'' (Fin 0))"
    by (simp add: dispatchGate_def holdRecommendation_def)
  from analyzeTrade_eval [OF calc this]
  have a: "analyzeTrade no_quotes ?t ?s1 = Normal ?s1"
    unfolding upd same by simp
  have fresh: "existing (trades_tbl initial_state) ?t = None"
    by (simp add: existing_def initial_state_def)
  have "truthy (js_get (positions (userPortfolio ?s1)) (Ticker ?t))"
    using initial_truthy_NVDA by (simp add: fields insertTrade_fields)
  with a fresh Pelosi_truthy
  have p: "processTrade no_quotes ?t initial_state = Normal ?s1"
    by (simp add: processTrade_def fields(3) Let_def)
  have c: "processTrades no_quotes_ever 0 [?t] initial_state = ?s1"
    using p by (simp add: no_quotes_ever_def)
  have e: "recommendations_tbl ?s1 = []" "email_sent ?s1 = []"
    by (simp_all add: insertTrade_fields initial_state_def)
  from calc c e show ?thesis unfolding fields amount_is_double by simp
qed

text \<open>
  C2, amended. Whenever the loop computes a recommendation (line 419, reached only for
  a ticker the portfolio has a property for), the recommendation is handed to the
  dispatcher and written to the recommendation table exactly when its action is not
  HOLD and its confidence exceeds 0.6; otherwise neither happens. Over a whole cycle,
  the rows added to the table are the recommendations sent by email, and each of them
  passes the gate.
\<close>

theorem dispatched_and_persisted_iff_gate:
  assumes "truthy (js_get (positions (userPortfolio s)) (Ticker t))"
  shows "(\<exists>r s'. calculatePositionAdjustment (updatePortfolioValues q (userPortfolio s))
                  (Ticker t) (Transaction t) (Representative t) (fl (Amount t)) = Inr r
            \<and> analyzeTrade q t s = Normal s'
            \<and> recommendations_tbl s' = recommendations_tbl s
                @ (if action r \<noteq> HOLD \<and> jgt (confidence r) (lit (6 / 10)) then [r] else [])
            \<and> email_sent s' = email_sent s
                @ (if action r \<noteq> HOLD \<and> jgt (confidence r) (lit (6 / 10)) then [r] else []))
       \<and> (\<exists>new. recommendations_tbl (processTrades quotes i ts s) = recommendations_tbl s @ new
            \<and> email_sent (processTrades quotes i ts s) = email_sent s @ new
            \<and> (\<forall>r\<in>set new. action r \<noteq> HOLD \<and> jgt (confidence r) (lit (6 / 10))))"
proof -
  from analyzeTrade_Normal [OF assms, of q]
  have one: "\<exists>r s'. calculatePositionAdjustment (updatePortfolioValues q (userPortfolio s))
                  (Ticker t) (Transaction t) (Representative t) (fl (Amount t)) = Inr r
            \<and> analyzeTrade q t s = Normal s'
            \<and> recommendations_tbl s' = recommendations_tbl s
                @ (if action r \<noteq> HOLD \<and> jgt (confidence r) (lit (6 / 10)) then [r] else [])
            \<and> email_sent s' = email_sent s
                @ (if action r \<noteq> HOLD \<and> jgt (confidence r) (lit (6 / 10)) then [r] else [])"
    unfolding dispatchGate_def by blast
  obtain new where "cycle_effect s (processTrades quotes i ts s) new"
    using processTrades_effect by blast
  then have two: "\<exists>new. recommendations_tbl (processTrades quotes i ts s) = recommendations_tbl s @ new
            \<and> email_sent (processTrades quotes i ts s) = email_sent s @ new
            \<and> (\<forall>r\<in>set new. action r \<noteq> HOLD \<and> jgt (confidence r) (lit (6 / 10)))"
    by (auto simp: cycle_effect_def list_all_iff dispatchGate_def)
  from one two show ?thesis by blast
qed

theorem dispatched_and_persisted_iff_gate_witness:
  "truthy (js_get (positions (userPortfolio initial_state)) (Ticker (pelosi_nvda ''Purchase'' ''2024-03-05'')))
   \<and> (\<exists>s'. analyzeTrade no_quotes (pelosi_nvda ''Purchase'' ''2024-03-05'') initial_state = Normal s'
         \<and> recommendations_tbl s'
             = [\<lparr>symbol = ''NVDA'', action = BUY, rec_currentPrice = Fin 0,
                 recommendedAmount = Fin 150, sharesToTrade = Fin (3 / 2),
                 reason = Bought ''Nancy Pelosi'' (Fin 2000000) (Fin 20) (Fin 35),
                 confidence = lit (9 / 10)\<rparr>]
         \<and> email_sent s' = recommendations_tbl s')"
proof -
  let ?t = "pelosi_nvda ''Purchase'' ''2024-03-05''"
  have fields: "Ticker ?t = ''NVDA''" "Transaction ?t = ''Purchase''"
    "Representative ?t = ''Nancy Pelosi''" "Amount ?t = 2000000"
    by (simp_all add: pelosi_nvda_def)
  have t: "truthy (js_get (positions (userPortfolio initial_state)) (Ticker ?t))"
    using initial_truthy_NVDA by (simp add: fields)
  have c: "calculatePositionAdjustment (updatePortfolioValues no_quotes (userPortfolio initial_state))
             (Ticker ?t) (Transaction ?t) (Representative ?t) (fl (Amount ?t))
           = Inr \<lparr>symbol = ''NVDA'', action = BUY, rec_currentPrice = Fin 0,
                  recommendedAmount = Fin 150, sharesToTrade = Fin (3 / 2),
                  reason = Bought ''Nancy Pelosi'' (Fin 2000000) (Fin 20) (Fin 35),
                  confidence = lit (9 / 10)\<rparr>"
    using scenario_1
    by (simp add: fields initial_state_def initial_refresh_no_quotes amount_is_double)
  have e: "recommendations_tbl initial_state = []" "email_sent initial_state = []"
    by (simp_all add: initial_state_def)
  from dispatched_and_persisted_iff_gate [OF t, of no_quotes no_quotes_ever 0 "[]"] t
  show ?thesis unfolding c e by (auto simp: js_evals fl_evals)
qed

subsection \<open>Untracked actors and tickers\<close>

text \<open>
  C6, as stated, fails: a manual entry of an actor who is not tracked is written to the
  trade table. The filter on tracked actors and tickers is part of the feed adapter
  only, and the check of line 412 comes after the insert.
\<close>

theorem untracked_manual_trade_is_persisted:
  "\<not> hasOwnProperty TOP_PERFORMERS (m_trader_name untracked_manual_row)
   \<and> js_get TOP_PERFORMERS (m_trader_name untracked_manual_row) = Undefined
   \<and> trades_tbl (processNewTrades always_recent parse_example ''2024-03-02'' None
                   no_quotes_ever manual_backlog_state)
     = [\<lparr>trader_name = ''John Doe'', row_symbol = ''NVDA'', transaction_type = ''Purchase'',
         amount = 2000000, trade_date = ''2024-03-01'', disclosure_date = ''2024-03-02''\<rparr>]"
proof -
  let ?t = "manualToTrade ''2024-03-02'' untracked_manual_row"
  let ?s0 = "manual_backlog_state
               \<lparr>manual_trades_tbl := map (\<lambda>r. r\<lparr>processed := True\<rparr>)
                                        (manual_trades_tbl manual_backlog_state)\<rparr>"
  have u: "js_get TOP_PERFORMERS (m_trader_name untracked_manual_row) = Undefined"
    by (simp add: js_get_def TOP_PERFORMERS_def untracked_manual_row_def
        object_prototype_keys_def)
  have h: "\<not> hasOwnProperty TOP_PERFORMERS (m_trader_name untracked_manual_row)"
    by (simp add: hasOwnProperty_def TOP_PERFORMERS_def untracked_manual_row_def)
  have cands: "fetchHouseStockWatcher always_recent parse_example
                 (userPortfolio manual_backlog_state) None
               @ map (manualToTrade ''2024-03-02'')
                   (rev (filter (\<lambda>r. \<not> processed r) (manual_trades_tbl manual_backlog_state)))
               = [?t]"
    by (simp add: fetchHouseStockWatcher_def manual_backlog_state_def untracked_manual_row_def)
  have fresh: "existing (trades_tbl ?s0) ?t = None"
    by (simp add: existing_def manual_backlog_state_def initial_state_def)
  have "processTrade (no_quotes_ever 0) ?t ?s0 = Normal (insertTrade ?t ?s0)"
    using fresh u by (simp add: processTrade_def manualToTrade_def)
  then have "processTrades no_quotes_ever 0 [?t] ?s0 = insertTrade ?t ?s0"
    by simp
  then have "processNewTrades always_recent parse_example ''2024-03-02'' None
                   no_quotes_ever manual_backlog_state = insertTrade ?t ?s0"
    unfolding processNewTrades_unfold cands by simp
  then show ?thesis using u h
    by (simp add: insertTrade_fields manual_backlog_state_def initial_state_def rowOf_def
        manualToTrade_def untracked_manual_row_def)
qed

text \<open>
  C6, amended. (1) The feed adapter returns only candidates whose actor is a tracked
  actor and whose ticker is a position of the portfolio; this is said for names that
  are not among the property names every object inherits. (2) A candidate list in
  which every trade has an untracked actor or an untracked ticker, from whichever
  adapter, produces no recommendation: the recommendation table and both message
  channels are as before the cycle. (3) Such a candidate is nevertheless written to
  the trade table when no row with its identity exists.
\<close>

theorem untracked_trade_gives_no_recommendation:
  "(\<forall>t\<in>set (fetchHouseStockWatcher is_recent parseFloat pf response).
       (Representative t \<notin> set object_prototype_keys
          \<longrightarrow> hasOwnProperty TOP_PERFORMERS (Representative t))
       \<and> (Ticker t \<notin> set object_prototype_keys
          \<longrightarrow> hasOwnProperty (positions pf) (Ticker t)))
   \<and> ((\<forall>t\<in>set ts. \<not> (hasOwnProperty TOP_PERFORMERS (Representative t)
                       \<and> hasOwnProperty (positions (userPortfolio s)) (Ticker t)))
       \<longrightarrow> recommendations_tbl (processTrades quotes i ts s) = recommendations_tbl s
            \<and> email_sent (processTrades quotes i ts s) = email_sent s
            \<and> sms_sent (processTrades quotes i ts s) = sms_sent s)
   \<and> (existing (trades_tbl s) u = None
       \<longrightarrow> trades_tbl (processTrades quotes i [u] s) = trades_tbl s @ [rowOf u])"
proof -
  have truthy_own: "truthy (js_get obj k) \<Longrightarrow> k \<notin> set object_prototype_keys
                      \<Longrightarrow> hasOwnProperty obj k" for obj :: "(string \<times> 'a) list" and k
    by (auto simp: js_get_def hasOwnProperty_def split: option.splits)
  have one: "\<forall>t\<in>set (fetchHouseStockWatcher is_recent parseFloat pf response).
       (Representative t \<notin> set object_prototype_keys
          \<longrightarrow> hasOwnProperty TOP_PERFORMERS (Representative t))
       \<and> (Ticker t \<notin> set object_prototype_keys
          \<longrightarrow> hasOwnProperty (positions pf) (Ticker t))"
    by (cases response)
       (auto simp: fetchHouseStockWatcher_def relevantTrade_def intro: truthy_own)
  have three: "trades_tbl (processTrades quotes i [u] s) = trades_tbl s @ [rowOf u]"
    if "existing (trades_tbl s) u = None"
    using processTrade_fresh [OF that, of "quotes i"] by auto
  from one processTrades_untracked [of ts s quotes i] three show ?thesis by blast
qed

theorem untracked_trade_gives_no_recommendation_witness:
  "map Representative (fetchHouseStockWatcher always_recent parse_example
        (userPortfolio_init NaN) (Some feed_example)) = [''Nancy Pelosi'']
   \<and> map Ticker (fetchHouseStockWatcher always_recent parse_example
        (userPortfolio_init NaN) (Some feed_example)) = [''NVDA'']
   \<and> \<not> hasOwnProperty TOP_PERFORMERS
          (Representative (manualToTrade ''2024-03-02'' untracked_manual_row))
   \<and> existing (trades_tbl initial_state) (manualToTrade ''2024-03-02'' untracked_manual_row) = None
   \<and> recommendations_tbl (processTrades no_quotes_ever 0
        [manualToTrade ''2024-03-02'' untracked_manual_row] initial_state) = []
   \<and> email_sent (processTrades no_quotes_ever 0
        [manualToTrade ''2024-03-02'' untracked_manual_row] initial_state) = []
   \<and> sms_sent (processTrades no_quotes_ever 0
        [manualToTrade ''2024-03-02'' untracked_manual_row] initial_state) = []
   \<and> trades_tbl (processTrades no_quotes_ever 0
        [manualToTrade ''2024-03-02'' untracked_manual_row] initial_state)
     = [rowOf (manualToTrade ''2024-03-02'' untracked_manual_row)]"
proof -
  let ?u = "manualToTrade ''2024-03-02'' untracked_manual_row"
  have feed: "map Representative (fetchHouseStockWatcher always_recent parse_example
        (userPortfolio_init NaN) (Some feed_example)) = [''Nancy Pelosi'']"
    "map Ticker (fetchHouseStockWatcher always_recent parse_example
        (userPortfolio_init NaN) (Some feed_example)) = [''NVDA'']"
    by (simp_all add: fetchHouseStockWatcher_def feed_example_def always_recent_def
        normalizeHsw_def relevantTrade_def js_get_def TOP_PERFORMERS_def
        userPortfolio_init_def object_prototype_keys_def)
  have h: "\<not> hasOwnProperty TOP_PERFORMERS (Representative ?u)"
    by (simp add: hasOwnProperty_def TOP_PERFORMERS_def untracked_manual_row_def
        manualToTrade_def)
  have fresh: "existing (trades_tbl initial_state) ?u = None"
    by (simp add: existing_def initial_state_def)
  have e: "recommendations_tbl initial_state = []" "email_sent initial_state = []"
    "sms_sent initial_state = []" "trades_tbl initial_state = []"
    by (simp_all add: initial_state_def)
  from untracked_trade_gives_no_recommendation
         [of always_recent parse_example "userPortfolio_init NaN" "Some feed_example"
             "[?u]" initial_state no_quotes_ever 0 ?u] h fresh
  have "recommendations_tbl (processTrades no_quotes_ever 0 [?u] initial_state) = []
      \<and> email_sent (processTrades no_quotes_ever 0 [?u] initial_state) = []
      \<and> sms_sent (processTrades no_quotes_ever 0 [?u] initial_state) = []
      \<and> trades_tbl (processTrades no_quotes_ever 0 [?u] initial_state) = [rowOf ?u]"
    unfolding e by simp
  with feed h fresh show ?thesis by simp
qed

end
